theory Spec2Isabelle
  imports Main "HOL-Library.Word"
begin

section \<open>The optimizing compiler's orchestrator (optimizing\_compiler.cc)\<close>

text \<open>
  The development embeds \<^verbatim>\<open>OptimizingCompiler::Compile\<close> and the static helpers it
  calls. The classes it drives (graph builder, code generator, register allocator, the
  optimization passes) live in other files of the repository; they enter the model as the
  fields of a record of collaborators, so every theorem holds for each implementation of
  them. Calls into a collaborator are taken to return, as the call sites are written; the
  aborts that are modelled are the ones \<^verbatim>\<open>Compile\<close> itself raises (two \<^verbatim>\<open>CHECK\<close>s and
  one \<^verbatim>\<open>LOG(FATAL)\<close>).
\<close>

subsection \<open>Data\<close>

type_synonym byte = "8 word"

text \<open>
  Modelled from the spec: the \<^verbatim>\<open>InstructionSet\<close> enum is declared outside this file. The
  enumerators that \<^verbatim>\<open>optimizing_compiler.cc\<close> names are kept; every other enumerator is
  \<open>kOtherInstructionSet n\<close>.
\<close>

datatype InstructionSet =
  kArm | kArm64 | kThumb2 | kX86 | kX86_64 | kOtherInstructionSet nat

text \<open>
  Modelled from the spec: \<^verbatim>\<open>CompilerOptions::CompilerFilter\<close> is declared outside this file;
  only \<^verbatim>\<open>kTime\<close> is named here.
\<close>

datatype CompilerFilter = kTime | kOtherFilter nat

text \<open>\<^verbatim>\<open>DexFile::CodeItem\<close>: the field read here is \<^verbatim>\<open>tries_size_\<close> (a \<^verbatim>\<open>uint16_t\<close>).\<close>

record CodeItem =
  tries_size :: "16 word"
  insns :: "16 word list"

text \<open>The arguments of \<^verbatim>\<open>Compile\<close>. Dex files and class loaders are opaque handles.\<close>

record CompileArgs =
  code_item :: CodeItem
  access_flags :: "32 word"
  invoke_type :: nat
  class_def_idx :: "16 word"
  method_idx :: "32 word"
  class_loader :: nat
  dex_file :: nat

text \<open>\<^verbatim>\<open>DexCompilationUnit\<close>, as constructed at lines 237-240.\<close>

record DexCompilationUnit =
  cu_class_loader :: nat
  cu_dex_file :: nat
  cu_code_item :: CodeItem
  cu_class_def_idx :: "16 word"
  cu_method_idx :: "32 word"
  cu_access_flags :: "32 word"
  cu_verified_method :: "nat option"

type_synonym SrcMap = "(32 word \<times> 32 word) list"

text \<open>
  \<^verbatim>\<open>CompiledMethod\<close> has two constructors: the one called on the optimized path takes a
  mapping table and a stack map, the one called on the baseline path takes a source map, a
  mapping table, a vmap table, a native GC map and CFI information.
\<close>

datatype MethodTables =
  StackMapTables "byte list" "byte list"
| QuickTables SrcMap "byte list" "byte list" "byte list" "byte list option"

record CompiledMethod =
  cm_instruction_set :: InstructionSet
  quick_code :: "byte list"
  frame_size_in_bytes :: nat
  core_spill_mask :: "32 word"
  fp_spill_mask :: "32 word"
  tables :: MethodTables

text \<open>The passes that \<^verbatim>\<open>Compile\<close> and \<^verbatim>\<open>RunOptimizations\<close> instantiate.\<close>

datatype Pass =
  HDeadCodeElimination
| HConstantFolding
| SsaRedundantPhiElimination
| SsaDeadPhiElimination
| InstructionSimplifier
| GlobalValueNumberer

datatype DumpLabel =
  DumpBuilder | DumpSsa | DumpPass Pass | DumpLiveness | DumpRegisterAllocator

text \<open>One event per call into a collaborator that acts on the graph or the code generator.\<close>

datatype Event =
  EvDumpGraph DumpLabel
| EvBuildDominatorTree
| EvTransformToSSA
| EvFindNaturalLoops
| EvRun Pass
| EvCheck Pass
| EvPrepareForRegisterAllocation
| EvLivenessAnalyze
| EvAllocateRegisters
| EvCompileOptimized
| EvCompileBaseline
| EvBuildMappingTable bool
| EvBuildStackMaps
| EvBuildVMapTable
| EvBuildNativeGCMap

text \<open>The two ways \<^verbatim>\<open>Compile\<close> aborts the process, with the message it logs.\<close>

datatype Fatal = CheckFailed string | LogFatal string

text \<open>
  Modelled from the spec: the collaborators of \<^verbatim>\<open>Compile\<close> (compiler driver and options,
  graph builder, graph passes, liveness analysis, register allocator, code generator) are
  defined in other files; their bodies are not part of this development. \<open>'g\<close> is the
  state of an \<^verbatim>\<open>HGraph\<close>, \<open>'c\<close> the state of a \<^verbatim>\<open>CodeGenerator\<close> apart from the graph,
  \<open>'l\<close> the result of the liveness analysis.

  Objects are shared as in the source. The graph is updated in place: a graph method or a
  pass, which is constructed from the graph alone, maps the graph to its next state;
  \<^verbatim>\<open>HOptimization::Check\<close> returns nothing and is a call through the same pass object, so
  it too is given the graph and hands it on. The code generator is created from the graph
  (line 258) and keeps pointing to it, so each of its methods is given the pair of the
  graph as it is at the time of the call and the generator's own state. Code emission and
  register allocation may update both; so may the liveness analysis, which receives the
  graph and the code generator. The table builders, \<^verbatim>\<open>GetFrameSize\<close> and
  \<^verbatim>\<open>GetCoreSpillMask\<close> read the pair. The flag of \<open>BuildMappingTable\<close> says whether a source
  map is passed (\<open>True\<close>) or \<^verbatim>\<open>nullptr\<close> (\<open>False\<close>).
\<close>

record ('g, 'c, 'l) Collaborators =
  GetInstructionSet :: InstructionSet
  GetCompilerFilter :: CompilerFilter
  GetIncludeDebugSymbols :: bool
  kArm32QuickCodeUseSoftFloat :: bool
  GetVerifiedMethod :: "nat \<Rightarrow> 32 word \<Rightarrow> nat option"
  IsPathologicalCase :: "CodeItem \<Rightarrow> 32 word \<Rightarrow> nat \<Rightarrow> bool"
  GetSymbol :: "DexCompilationUnit \<Rightarrow> string"
  BuildGraph :: "DexCompilationUnit \<Rightarrow> CodeItem \<Rightarrow> 'g option"
  CodeGenerator_Create :: "'g \<Rightarrow> InstructionSet \<Rightarrow> 'c option"
  CanAllocateRegistersFor :: "'g \<Rightarrow> InstructionSet \<Rightarrow> bool"
  Supports :: "InstructionSet \<Rightarrow> bool"
  BuildDominatorTree :: "'g \<Rightarrow> 'g"
  TransformToSSA :: "'g \<Rightarrow> 'g"
  FindNaturalLoops :: "'g \<Rightarrow> 'g"
  Run :: "Pass \<Rightarrow> 'g \<Rightarrow> 'g"
  Check :: "Pass \<Rightarrow> 'g \<Rightarrow> 'g"
  PrepareForRegisterAllocation :: "'g \<Rightarrow> 'g"
  Analyze :: "'g \<times> 'c \<Rightarrow> ('g \<times> 'c) \<times> 'l"
  AllocateRegisters :: "'g \<times> 'c \<Rightarrow> 'l \<Rightarrow> 'g \<times> 'c"
  CompileOptimized :: "'g \<times> 'c \<Rightarrow> ('g \<times> 'c) \<times> byte list"
  CompileBaseline :: "'g \<times> 'c \<Rightarrow> ('g \<times> 'c) \<times> byte list"
  BuildMappingTable :: "'g \<times> 'c \<Rightarrow> bool \<Rightarrow> byte list \<times> SrcMap"
  BuildStackMaps :: "'g \<times> 'c \<Rightarrow> byte list"
  BuildVMapTable :: "'g \<times> 'c \<Rightarrow> byte list"
  BuildNativeGCMap :: "'g \<times> 'c \<Rightarrow> DexCompilationUnit \<Rightarrow> byte list"
  GetFrameSize :: "'g \<times> 'c \<Rightarrow> nat"
  GetCoreSpillMask :: "'g \<times> 'c \<Rightarrow> 32 word"

text \<open>
  The mutable and constant members of \<^verbatim>\<open>OptimizingCompiler\<close> (lines 121-124). The
  counters are \<^verbatim>\<open>AtomicInteger\<close>s, 32 bits wide. Field names drop the trailing
  underscore of the C++ members, which is not an identifier character at the end of a
  name here.
\<close>

record OptimizingCompiler =
  run_optimizations :: bool
  total_compiled_methods :: "32 word"
  unoptimized_compiled_methods :: "32 word"
  optimized_compiled_methods :: "32 word"

subsection \<open>The code allocator\<close>

text \<open>
  \<^verbatim>\<open>CodeVectorAllocator\<close> (lines 47-65): \<^verbatim>\<open>Allocate\<close> records the size and resizes the
  vector; the code generator then writes the code through the returned pointer. The
  constructor (line 49) starts with an empty vector and does not initialise \<^verbatim>\<open>size_\<close>,
  whose value is \<open>None\<close> until the first \<^verbatim>\<open>Allocate\<close>.
\<close>

record CodeVectorAllocator =
  memory :: "byte list"
  alloc_size :: "nat option"

definition CodeVectorAllocator_new :: CodeVectorAllocator where
  "CodeVectorAllocator_new = \<lparr>memory = [], alloc_size = None\<rparr>"

definition Allocate :: "CodeVectorAllocator \<Rightarrow> nat \<Rightarrow> CodeVectorAllocator" where
  "Allocate a n =
     a\<lparr>alloc_size := Some n,
       memory := take n (memory a) @ replicate (n - length (memory a)) 0\<rparr>"

text \<open>A code generator emitting \<open>code\<close>: one \<^verbatim>\<open>Allocate\<close>, then the bytes are stored.\<close>

definition emit_code :: "CodeVectorAllocator \<Rightarrow> byte list \<Rightarrow> CodeVectorAllocator" where
  "emit_code a code = (Allocate a (length code))\<lparr>memory := code\<rparr>"

definition GetMemory :: "CodeVectorAllocator \<Rightarrow> byte list" where
  "GetMemory a = memory a"

subsection \<open>Static helpers\<close>

text \<open>\<^verbatim>\<open>std::string::find(marker) != std::string::npos\<close>.\<close>

fun is_prefix :: "string \<Rightarrow> string \<Rightarrow> bool" where
  "is_prefix [] s = True"
| "is_prefix (p # ps) [] = False"
| "is_prefix (p # ps) (c # cs) = (p = c \<and> is_prefix ps cs)"

fun contains_marker :: "string \<Rightarrow> string \<Rightarrow> bool" where
  "contains_marker s marker =
     (if is_prefix marker s then True
      else case s of [] \<Rightarrow> False | c # cs \<Rightarrow> contains_marker cs marker)"

declare contains_marker.simps [simp del]

text \<open>Lines 181-186.\<close>

definition IsInstructionSetSupported :: "bool \<Rightarrow> InstructionSet \<Rightarrow> bool" where
  "IsInstructionSetSupported soft_float instruction_set =
     (instruction_set = kArm64
      \<or> (instruction_set = kThumb2 \<and> \<not> soft_float)
      \<or> instruction_set = kX86
      \<or> instruction_set = kX86_64)"

text \<open>Lines 188-191.\<close>

definition CanOptimize :: "CodeItem \<Rightarrow> bool" where
  "CanOptimize item = (tries_size item = 0)"

text \<open>
  \<^verbatim>\<open>RunOptimizations\<close> (lines 193-210): the array of seven passes and the loop over it.
  The loop state is the graph and the events so far; each iteration runs the pass on the
  graph, checks it and dumps the graph.
\<close>

definition optimizations :: "Pass list" where
  "optimizations =
     [HDeadCodeElimination, HConstantFolding, SsaRedundantPhiElimination,
      SsaDeadPhiElimination, InstructionSimplifier, GlobalValueNumberer,
      InstructionSimplifier]"

fun RunOptimizations_loop ::
  "('g, 'c, 'l) Collaborators \<Rightarrow> Pass list \<Rightarrow> 'g \<times> Event list \<Rightarrow> 'g \<times> Event list" where
  "RunOptimizations_loop env [] (graph, log) = (graph, log)"
| "RunOptimizations_loop env (optimization # rest) (graph, log) =
     RunOptimizations_loop env rest
       (Check env optimization (Run env optimization graph),
        log @ [EvRun optimization, EvCheck optimization,
               EvDumpGraph (DumpPass optimization)])"

definition RunOptimizations ::
  "('g, 'c, 'l) Collaborators \<Rightarrow> 'g \<times> Event list \<Rightarrow> 'g \<times> Event list" where
  "RunOptimizations env st = RunOptimizations_loop env optimizations st"

subsection \<open>The compiler object\<close>

text \<open>The constructor (lines 133-143); the visualizer is disabled (line 70).\<close>

definition OptimizingCompiler_new :: "('g, 'c, 'l) Collaborators \<Rightarrow> OptimizingCompiler" where
  "OptimizingCompiler_new driver =
     \<lparr>run_optimizations = (GetCompilerFilter driver \<noteq> kTime),
      total_compiled_methods = 0,
      unoptimized_compiled_methods = 0,
      optimized_compiled_methods = 0\<rparr>"

text \<open>
  Lines 281-308: what the optimized branch does with the graph once the optimizations have
  run, from the preparation for register allocation to the \<^verbatim>\<open>CompiledMethod\<close> built by
  the stack-map constructor.
\<close>

definition optimized_backend ::
  "('g, 'c, 'l) Collaborators \<Rightarrow> InstructionSet \<Rightarrow> 'g \<Rightarrow> 'c \<Rightarrow> Event list \<Rightarrow>
   Event list \<times> CompiledMethod" where
  "optimized_backend env instruction_set graph codegen log0 =
     (let g1 = PrepareForRegisterAllocation env graph;
          (gc1, liveness) = Analyze env (g1, codegen);
          gc2 = AllocateRegisters env gc1 liveness;
          (gc3, code) = CompileOptimized env gc2;
          allocator = emit_code CodeVectorAllocator_new code;
          include_debug = GetIncludeDebugSymbols env;
          (mapping_table, src_map) = BuildMappingTable env gc3 include_debug;
          stack_map = BuildStackMaps env gc3;
          log1 = log0 @ [EvPrepareForRegisterAllocation, EvLivenessAnalyze,
                         EvDumpGraph DumpLiveness, EvAllocateRegisters,
                         EvDumpGraph DumpRegisterAllocator, EvCompileOptimized,
                         EvBuildMappingTable include_debug, EvBuildStackMaps]
      in (log1,
          \<lparr>cm_instruction_set = instruction_set,
           quick_code = GetMemory allocator,
           frame_size_in_bytes = GetFrameSize env gc3,
           core_spill_mask = GetCoreSpillMask env gc3,
           fp_spill_mask = 0,
           tables = StackMapTables mapping_table stack_map\<rparr>))"

text \<open>
  The branch of lines 273-308: the optimized pipeline. It returns the updated compiler, the
  events and the \<^verbatim>\<open>CompiledMethod\<close>.
\<close>

definition Compile_optimized ::
  "('g, 'c, 'l) Collaborators \<Rightarrow> OptimizingCompiler \<Rightarrow> InstructionSet \<Rightarrow> 'g \<Rightarrow> 'c \<Rightarrow>
   Event list \<Rightarrow> OptimizingCompiler \<times> Event list \<times> CompiledMethod" where
  "Compile_optimized env this instruction_set graph codegen log0 =
     (let this' = this\<lparr>optimized_compiled_methods := optimized_compiled_methods this + 1\<rparr>;
          g1 = BuildDominatorTree env graph;
          g2 = TransformToSSA env g1;
          g3 = FindNaturalLoops env g2;
          log1 = log0 @ [EvBuildDominatorTree, EvTransformToSSA, EvDumpGraph DumpSsa,
                         EvFindNaturalLoops];
          (g4, log2) = RunOptimizations env (g3, log1);
          (log3, method) = optimized_backend env instruction_set g4 codegen log2
      in (this', log3, method))"

text \<open>
  Lines 316-328: the phases run after baseline code generation "to get some test
  coverage", on the graph the code generator points to. The liveness result is a local
  that goes out of scope; the graph and the code generator stay as the phases leave them.
\<close>

definition coverage_phases ::
  "('g, 'c, 'l) Collaborators \<Rightarrow> 'g \<times> 'c \<Rightarrow> Event list \<Rightarrow> ('g \<times> 'c) \<times> Event list" where
  "coverage_phases env gc log0 =
     (let g1 = BuildDominatorTree env (fst gc);
          g2 = TransformToSSA env g1;
          g3 = FindNaturalLoops env g2;
          g4 = Run env SsaRedundantPhiElimination g3;
          g5 = Run env SsaDeadPhiElimination g4;
          g6 = Run env GlobalValueNumberer g5;
          (gc1, liveness) = Analyze env (g6, snd gc)
      in (gc1, log0 @ [EvBuildDominatorTree, EvTransformToSSA, EvDumpGraph DumpSsa,
                       EvFindNaturalLoops, EvRun SsaRedundantPhiElimination,
                       EvRun SsaDeadPhiElimination, EvRun GlobalValueNumberer,
                       EvLivenessAnalyze, EvDumpGraph DumpLiveness]))"

text \<open>
  The branch of lines 313-350: baseline code generation, the coverage phases when the
  method has no try block, then the tables, read from the code generator after those
  phases, and the \<^verbatim>\<open>CompiledMethod\<close> built by the constructor that takes a source map, a
  vmap table and a GC map. With a null source-map argument \<^verbatim>\<open>BuildMappingTable\<close> leaves
  the local \<^verbatim>\<open>src_mapping_table\<close> empty.
\<close>

definition Compile_baseline ::
  "('g, 'c, 'l) Collaborators \<Rightarrow> OptimizingCompiler \<Rightarrow> CodeItem \<Rightarrow> DexCompilationUnit \<Rightarrow>
   InstructionSet \<Rightarrow> 'g \<Rightarrow> 'c \<Rightarrow> Event list \<Rightarrow>
   OptimizingCompiler \<times> Event list \<times> CompiledMethod" where
  "Compile_baseline env this item unit instruction_set graph codegen log0 =
     (let this' = this\<lparr>unoptimized_compiled_methods :=
                         unoptimized_compiled_methods this + 1\<rparr>;
          (gc1, code) = CompileBaseline env (graph, codegen);
          allocator = emit_code CodeVectorAllocator_new code;
          log1 = log0 @ [EvCompileBaseline];
          (gc2, log2) = (if CanOptimize item then coverage_phases env gc1 log1
                         else (gc1, log1));
          include_debug = GetIncludeDebugSymbols env;
          (mapping_table, src_map) = BuildMappingTable env gc2 include_debug;
          src_mapping_table = (if include_debug then src_map else []);
          vmap_table = BuildVMapTable env gc2;
          gc_map = BuildNativeGCMap env gc2 unit;
          log3 = log2 @ [EvBuildMappingTable include_debug, EvBuildVMapTable,
                         EvBuildNativeGCMap]
      in (this', log3,
          \<lparr>cm_instruction_set = instruction_set,
           quick_code = GetMemory allocator,
           frame_size_in_bytes = GetFrameSize env gc2,
           core_spill_mask = GetCoreSpillMask env gc2,
           fp_spill_mask = 0,
           tables = QuickTables src_mapping_table mapping_table vmap_table gc_map None\<rparr>))"

text \<open>Lines 221-226: the driver's instruction set, with \<^verbatim>\<open>kArm\<close> replaced by \<^verbatim>\<open>kThumb2\<close>.\<close>

definition chosen_instruction_set :: "('g, 'c, 'l) Collaborators \<Rightarrow> InstructionSet" where
  "chosen_instruction_set env =
     (if GetInstructionSet env = kArm then kThumb2 else GetInstructionSet env)"

text \<open>Lines 237-240.\<close>

definition dex_compilation_unit ::
  "('g, 'c, 'l) Collaborators \<Rightarrow> CompileArgs \<Rightarrow> DexCompilationUnit" where
  "dex_compilation_unit env args =
     \<lparr>cu_class_loader = class_loader args,
      cu_dex_file = dex_file args,
      cu_code_item = code_item args,
      cu_class_def_idx = class_def_idx args,
      cu_method_idx = method_idx args,
      cu_access_flags = access_flags args,
      cu_verified_method = GetVerifiedMethod env (dex_file args) (method_idx args)\<rparr>"

text \<open>Lines 244-246: the two markers looked up in the method's symbol.\<close>

definition shouldCompile :: "('g, 'c, 'l) Collaborators \<Rightarrow> CompileArgs \<Rightarrow> bool" where
  "shouldCompile env args =
     contains_marker (GetSymbol env (dex_compilation_unit env args)) ''00024opt_00024''"

definition shouldOptimize :: "('g, 'c, 'l) Collaborators \<Rightarrow> CompileArgs \<Rightarrow> bool" where
  "shouldOptimize env args =
     contains_marker (GetSymbol env (dex_compilation_unit env args)) ''00024reg_00024''"

text \<open>
  \<^verbatim>\<open>OptimizingCompiler::Compile\<close> (lines 212-352). The result is the compiler with its
  counters updated, the events, and either an abort (\<open>Inl\<close>) or the returned pointer
  (\<open>Inr None\<close> for \<^verbatim>\<open>nullptr\<close>).
\<close>

definition Compile ::
  "('g, 'c, 'l) Collaborators \<Rightarrow> OptimizingCompiler \<Rightarrow> CompileArgs \<Rightarrow>
   OptimizingCompiler \<times> Event list \<times> (Fatal + CompiledMethod option)" where
  "Compile env this args =
     (let this1 = this\<lparr>total_compiled_methods := total_compiled_methods this + 1\<rparr>;
          instruction_set = chosen_instruction_set env
      in if \<not> IsInstructionSetSupported (kArm32QuickCodeUseSoftFloat env) instruction_set
         then (this1, [], Inr None)
         else if IsPathologicalCase env (code_item args) (method_idx args) (dex_file args)
         then (this1, [], Inr None)
         else
           (let unit = dex_compilation_unit env args
            in case BuildGraph env unit (code_item args) of
                 None \<Rightarrow>
                   if shouldCompile env args
                   then (this1, [],
                         Inl (CheckFailed ''Could not build graph in optimizing compiler''))
                   else (this1, [], Inr None)
               | Some graph \<Rightarrow>
                   (case CodeGenerator_Create env graph instruction_set of
                      None \<Rightarrow>
                        if shouldCompile env args
                        then (this1, [],
                              Inl (CheckFailed
                                ''Could not find code generator for optimizing compiler''))
                        else (this1, [], Inr None)
                    | Some codegen \<Rightarrow>
                        (let log0 = [EvDumpGraph DumpBuilder]
                         in if run_optimizations this1
                               \<and> CanOptimize (code_item args)
                               \<and> CanAllocateRegistersFor env graph instruction_set
                            then (case Compile_optimized env this1 instruction_set graph
                                         codegen log0 of
                                    (this2, log, method) \<Rightarrow> (this2, log, Inr (Some method)))
                            else if shouldOptimize env args \<and> Supports env instruction_set
                            then (this1, log0,
                                  Inl (LogFatal
                                    ''Could not allocate registers in optimizing compiler''))
                            else (case Compile_baseline env this1 (code_item args) unit
                                         instruction_set graph codegen log0 of
                                    (this2, log, method) \<Rightarrow>
                                      (this2, log, Inr (Some method)))))))"

subsection \<open>A run of the compiler\<close>

text \<open>
  Successive calls of \<^verbatim>\<open>Compile\<close> on one compiler object. An abort ends the process, so
  the run stops there with the abort as its last outcome.
\<close>

fun run_compiles ::
  "('g, 'c, 'l) Collaborators \<Rightarrow> OptimizingCompiler \<Rightarrow> CompileArgs list \<Rightarrow>
   OptimizingCompiler \<times> (Fatal + CompiledMethod option) list" where
  "run_compiles env this [] = (this, [])"
| "run_compiles env this (args # rest) =
     (case Compile env this args of
        (this', log, Inl fatal) \<Rightarrow> (this', [Inl fatal])
      | (this', log, Inr r) \<Rightarrow>
          (case run_compiles env this' rest of
             (this'', rs) \<Rightarrow> (this'', Inr r # rs)))"

text \<open>Reading an outcome: which constructor built the returned method, if any.\<close>

fun is_optimized_method :: "CompiledMethod \<Rightarrow> bool" where
  "is_optimized_method m =
     (case tables m of StackMapTables mt sm \<Rightarrow> True | QuickTables s mt vt gc cfi \<Rightarrow> False)"

fun is_baseline_method :: "CompiledMethod \<Rightarrow> bool" where
  "is_baseline_method m =
     (case tables m of StackMapTables mt sm \<Rightarrow> False | QuickTables s mt vt gc cfi \<Rightarrow> True)"

fun returned_method :: "Fatal + CompiledMethod option \<Rightarrow> bool" where
  "returned_method (Inr (Some m)) = True"
| "returned_method r = False"

fun returned_optimized :: "Fatal + CompiledMethod option \<Rightarrow> bool" where
  "returned_optimized (Inr (Some m)) = is_optimized_method m"
| "returned_optimized r = False"

fun returned_baseline :: "Fatal + CompiledMethod option \<Rightarrow> bool" where
  "returned_baseline (Inr (Some m)) = is_baseline_method m"
| "returned_baseline r = False"

definition outcome ::
  "OptimizingCompiler \<times> Event list \<times> (Fatal + CompiledMethod option) \<Rightarrow>
   Fatal + CompiledMethod option" where
  "outcome r = snd (snd r)"

definition events ::
  "OptimizingCompiler \<times> Event list \<times> (Fatal + CompiledMethod option) \<Rightarrow> Event list" where
  "events r = fst (snd r)"

definition compiler_after ::
  "OptimizingCompiler \<times> Event list \<times> (Fatal + CompiledMethod option) \<Rightarrow>
   OptimizingCompiler" where
  "compiler_after r = fst r"

text \<open>Counting the outcomes of a run.\<close>

definition successful_compilations :: "(Fatal + CompiledMethod option) list \<Rightarrow> nat" where
  "successful_compilations rs = length (filter returned_method rs)"

definition optimized_compilations :: "(Fatal + CompiledMethod option) list \<Rightarrow> nat" where
  "optimized_compilations rs = length (filter returned_optimized rs)"

definition baseline_compilations :: "(Fatal + CompiledMethod option) list \<Rightarrow> nat" where
  "baseline_compilations rs = length (filter returned_baseline rs)"

definition unsuccessful_calls :: "(Fatal + CompiledMethod option) list \<Rightarrow> nat" where
  "unsuccessful_calls rs = length (filter (\<lambda>r. \<not> returned_method r) rs)"

text \<open>The compiler object after line 220.\<close>

definition entered :: "OptimizingCompiler \<Rightarrow> OptimizingCompiler" where
  "entered this = this\<lparr>total_compiled_methods := total_compiled_methods this + 1\<rparr>"

text \<open>The condition of lines 270-272, on the graph as the builder returned it.\<close>

definition optimized_condition ::
  "('g, 'c, 'l) Collaborators \<Rightarrow> OptimizingCompiler \<Rightarrow> CompileArgs \<Rightarrow> 'g \<Rightarrow> bool" where
  "optimized_condition env this args graph =
     (run_optimizations this \<and> tries_size (code_item args) = 0
      \<and> CanAllocateRegistersFor env graph (chosen_instruction_set env))"

text \<open>Selecting events: the \<^verbatim>\<open>Run\<close> and \<^verbatim>\<open>Check\<close> calls, and the table builders.\<close>

fun is_pass_event :: "Event \<Rightarrow> bool" where
  "is_pass_event (EvRun p) = True"
| "is_pass_event (EvCheck p) = True"
| "is_pass_event e = False"

fun is_table_event :: "Event \<Rightarrow> bool" where
  "is_table_event (EvBuildMappingTable d) = True"
| "is_table_event EvBuildStackMaps = True"
| "is_table_event EvBuildVMapTable = True"
| "is_table_event EvBuildNativeGCMap = True"
| "is_table_event e = False"

subsection \<open>A concrete set of collaborators\<close>

text \<open>
  Small executable collaborators on which the theorems below are instantiated. A graph is
  the list of what has been applied to it so far (\<open>0\<close> stands for the builder, \<open>10 + k\<close>
  for the \<^verbatim>\<open>Run\<close> and \<open>20 + k\<close> for the \<^verbatim>\<open>Check\<close> of pass number \<open>k\<close>), a code generator is
  the list of what it has been asked to do, a liveness result is a number. Optimized code
  spells out the graph it was generated from.
\<close>

fun pass_number :: "Pass \<Rightarrow> nat" where
  "pass_number HDeadCodeElimination = 0"
| "pass_number HConstantFolding = 1"
| "pass_number SsaRedundantPhiElimination = 2"
| "pass_number SsaDeadPhiElimination = 3"
| "pass_number InstructionSimplifier = 4"
| "pass_number GlobalValueNumberer = 5"

definition sample_env ::
  "InstructionSet \<Rightarrow> bool \<Rightarrow> string \<Rightarrow> (nat list, nat list, nat) Collaborators" where
  "sample_env isa debug symbol =
     \<lparr>GetInstructionSet = isa,
      GetCompilerFilter = kOtherFilter 0,
      GetIncludeDebugSymbols = debug,
      kArm32QuickCodeUseSoftFloat = False,
      GetVerifiedMethod = (\<lambda>d m. None),
      IsPathologicalCase = (\<lambda>item idx d. 4 < length (insns item)),
      GetSymbol = (\<lambda>u. symbol),
      BuildGraph = (\<lambda>u item. if insns item = [] then None else Some [0]),
      CodeGenerator_Create = (\<lambda>g i. if i = kArm64 then None else Some []),
      CanAllocateRegistersFor = (\<lambda>g i. i = kX86 \<and> g = [0]),
      Supports = (\<lambda>i. i = kX86 \<or> i = kX86_64),
      BuildDominatorTree = (\<lambda>g. g @ [1]),
      TransformToSSA = (\<lambda>g. g @ [2]),
      FindNaturalLoops = (\<lambda>g. g @ [3]),
      Run = (\<lambda>p g. g @ [10 + pass_number p]),
      Check = (\<lambda>p g. g @ [20 + pass_number p]),
      PrepareForRegisterAllocation = (\<lambda>g. g @ [5]),
      Analyze = (\<lambda>gc. ((fst gc @ [9], snd gc), length (fst gc))),
      AllocateRegisters = (\<lambda>gc l. (fst gc @ [6], snd gc @ [l])),
      CompileOptimized = (\<lambda>gc. ((fst gc, snd gc @ [7]), map of_nat (fst gc))),
      CompileBaseline = (\<lambda>gc. ((fst gc, snd gc @ [8]), [0xC3])),
      BuildMappingTable = (\<lambda>gc d. ([1, 2], [(0, 1)])),
      BuildStackMaps = (\<lambda>gc. [3]),
      BuildVMapTable = (\<lambda>gc. [4]),
      BuildNativeGCMap = (\<lambda>gc u. [5]),
      GetFrameSize = (\<lambda>gc. 16 * length (snd gc)),
      GetCoreSpillMask = (\<lambda>gc. 0x20)\<rparr>"

definition sample_args :: "16 word \<Rightarrow> nat \<Rightarrow> CompileArgs" where
  "sample_args tries n =
     \<lparr>code_item = \<lparr>tries_size = tries, insns = replicate n 0\<rparr>,
      access_flags = 1,
      invoke_type = 0,
      class_def_idx = 0,
      method_idx = 7,
      class_loader = 0,
      dex_file = 0\<rparr>"


text \<open>The methods that the sample collaborators produce on the two paths.\<close>

definition sample_optimized_method :: CompiledMethod where
  "sample_optimized_method =
     \<lparr>cm_instruction_set = kX86,
      quick_code = [0, 1, 2, 3, 10, 20, 11, 21, 12, 22, 13, 23, 14, 24, 15, 25, 14, 24,
                    5, 9, 6],
      frame_size_in_bytes = 32,
      core_spill_mask = 0x20, fp_spill_mask = 0, tables = StackMapTables [1, 2] [3]\<rparr>"

definition sample_baseline_method :: CompiledMethod where
  "sample_baseline_method =
     \<lparr>cm_instruction_set = kX86, quick_code = [0xC3], frame_size_in_bytes = 16,
      core_spill_mask = 0x20, fp_spill_mask = 0,
      tables = QuickTables [(0, 1)] [1, 2] [4] [5] None\<rparr>"

section \<open>The structure of a call\<close>

lemmas sample_defs =
  sample_env_def sample_args_def OptimizingCompiler_new_def chosen_instruction_set_def
  IsInstructionSetSupported_def dex_compilation_unit_def shouldCompile_def shouldOptimize_def
  CanOptimize_def contains_marker.simps sample_optimized_method_def
  sample_baseline_method_def

lemmas Compile_defs =
  Compile_def Compile_optimized_def optimized_backend_def Compile_baseline_def
  coverage_phases_def RunOptimizations_def optimizations_def emit_code_def Allocate_def GetMemory_def
  CodeVectorAllocator_new_def Let_def outcome_def events_def compiler_after_def

lemma Compile_optimized_compiler:
  "fst (Compile_optimized env this i g c log0) =
     this\<lparr>optimized_compiled_methods := optimized_compiled_methods this + 1\<rparr>"
  by (simp add: Compile_optimized_def Let_def split: prod.splits)

lemma optimized_backend_fp:
  "fp_spill_mask (snd (optimized_backend env i g c log0)) = 0"
  by (simp add: optimized_backend_def Let_def split: prod.splits)

lemma optimized_backend_tables:
  "\<exists>c'. tables (snd (optimized_backend env i g c log0)) =
     StackMapTables (fst (BuildMappingTable env c' (GetIncludeDebugSymbols env)))
       (BuildStackMaps env c')"
  by (simp add: optimized_backend_def Let_def split: prod.splits) (metis fst_conv)

lemma optimized_backend_events:
  "fst (optimized_backend env i g c log0) =
     log0 @ [EvPrepareForRegisterAllocation, EvLivenessAnalyze, EvDumpGraph DumpLiveness,
             EvAllocateRegisters, EvDumpGraph DumpRegisterAllocator, EvCompileOptimized,
             EvBuildMappingTable (GetIncludeDebugSymbols env), EvBuildStackMaps]"
  by (simp add: optimized_backend_def Let_def split: prod.splits)

lemma Compile_optimized_backend:
  "snd (Compile_optimized env this i g c log0) =
     optimized_backend env i
       (fst (RunOptimizations env
          (FindNaturalLoops env (TransformToSSA env (BuildDominatorTree env g)),
           log0 @ [EvBuildDominatorTree, EvTransformToSSA, EvDumpGraph DumpSsa,
                   EvFindNaturalLoops])))
       c
       (snd (RunOptimizations env
          (FindNaturalLoops env (TransformToSSA env (BuildDominatorTree env g)),
           log0 @ [EvBuildDominatorTree, EvTransformToSSA, EvDumpGraph DumpSsa,
                   EvFindNaturalLoops])))"
  by (simp add: Compile_optimized_def Let_def split: prod.splits)

lemma Compile_optimized_fp:
  "fp_spill_mask (snd (snd (Compile_optimized env this i g c log0))) = 0"
  by (simp add: Compile_optimized_backend optimized_backend_fp)

lemma Compile_optimized_tables:
  "\<exists>c'. tables (snd (snd (Compile_optimized env this i g c log0))) =
     StackMapTables (fst (BuildMappingTable env c' (GetIncludeDebugSymbols env)))
       (BuildStackMaps env c')"
  by (simp add: Compile_optimized_backend optimized_backend_tables del: split_paired_Ex)

lemma Compile_baseline_compiler:
  "fst (Compile_baseline env this item u i g c log0) =
     this\<lparr>unoptimized_compiled_methods := unoptimized_compiled_methods this + 1\<rparr>"
  by (simp add: Compile_baseline_def Let_def split: prod.splits)

lemma Compile_baseline_fp:
  "fp_spill_mask (snd (snd (Compile_baseline env this item u i g c log0))) = 0"
  by (simp add: Compile_baseline_def Let_def split: prod.splits)

lemma Compile_baseline_tables:
  "\<exists>s mt vt gc. tables (snd (snd (Compile_baseline env this item u i g c log0))) =
     QuickTables s mt vt gc None"
  by (simp add: Compile_baseline_def Let_def split: prod.splits)

lemma Compile_unsupported:
  "\<not> IsInstructionSetSupported (kArm32QuickCodeUseSoftFloat env) (chosen_instruction_set env)
   \<Longrightarrow> Compile env this args = (entered this, [], Inr None)"
  by (simp add: Compile_def entered_def Let_def)

lemma Compile_pathological:
  "IsPathologicalCase env (code_item args) (method_idx args) (dex_file args)
   \<Longrightarrow> Compile env this args = (entered this, [], Inr None)"
  by (simp add: Compile_def entered_def Let_def)

lemma Compile_no_graph:
  assumes "IsInstructionSetSupported (kArm32QuickCodeUseSoftFloat env) (chosen_instruction_set env)"
    and "\<not> IsPathologicalCase env (code_item args) (method_idx args) (dex_file args)"
    and "BuildGraph env (dex_compilation_unit env args) (code_item args) = None"
  shows "Compile env this args =
     (entered this, [],
      if shouldCompile env args
      then Inl (CheckFailed ''Could not build graph in optimizing compiler'')
      else Inr None)"
  using assms by (simp add: Compile_def entered_def Let_def)

lemma Compile_no_codegen:
  assumes "IsInstructionSetSupported (kArm32QuickCodeUseSoftFloat env) (chosen_instruction_set env)"
    and "\<not> IsPathologicalCase env (code_item args) (method_idx args) (dex_file args)"
    and "BuildGraph env (dex_compilation_unit env args) (code_item args) = Some graph"
    and "CodeGenerator_Create env graph (chosen_instruction_set env) = None"
  shows "Compile env this args =
     (entered this, [],
      if shouldCompile env args
      then Inl (CheckFailed ''Could not find code generator for optimizing compiler'')
      else Inr None)"
  using assms by (simp add: Compile_def entered_def Let_def)

lemma Compile_built:
  assumes "IsInstructionSetSupported (kArm32QuickCodeUseSoftFloat env) (chosen_instruction_set env)"
    and "\<not> IsPathologicalCase env (code_item args) (method_idx args) (dex_file args)"
    and "BuildGraph env (dex_compilation_unit env args) (code_item args) = Some graph"
    and "CodeGenerator_Create env graph (chosen_instruction_set env) = Some codegen"
  shows "Compile env this args =
     (if optimized_condition env this args graph
      then (case Compile_optimized env (entered this) (chosen_instruction_set env) graph codegen
                  [EvDumpGraph DumpBuilder] of
              (this2, log, method) \<Rightarrow> (this2, log, Inr (Some method)))
      else if shouldOptimize env args \<and> Supports env (chosen_instruction_set env)
      then (entered this, [EvDumpGraph DumpBuilder],
            Inl (LogFatal ''Could not allocate registers in optimizing compiler''))
      else (case Compile_baseline env (entered this) (code_item args)
                  (dex_compilation_unit env args) (chosen_instruction_set env) graph codegen
                  [EvDumpGraph DumpBuilder] of
              (this2, log, method) \<Rightarrow> (this2, log, Inr (Some method))))"
  using assms
  by (simp add: Compile_def entered_def Let_def optimized_condition_def CanOptimize_def)

text \<open>The loop of \<^verbatim>\<open>RunOptimizations\<close> unrolled: the graph it hands on.\<close>

lemma RunOptimizations_graph:
  "fst (RunOptimizations env (g, log)) =
     Check env InstructionSimplifier (Run env InstructionSimplifier
       (Check env GlobalValueNumberer (Run env GlobalValueNumberer
         (Check env InstructionSimplifier (Run env InstructionSimplifier
           (Check env SsaDeadPhiElimination (Run env SsaDeadPhiElimination
             (Check env SsaRedundantPhiElimination (Run env SsaRedundantPhiElimination
               (Check env HConstantFolding (Run env HConstantFolding
                 (Check env HDeadCodeElimination (Run env HDeadCodeElimination
                   g)))))))))))))"
  by (simp add: RunOptimizations_def optimizations_def)

lemma RunOptimizations_events:
  "snd (RunOptimizations env (g, log)) =
     log @ [EvRun HDeadCodeElimination, EvCheck HDeadCodeElimination,
            EvDumpGraph (DumpPass HDeadCodeElimination),
            EvRun HConstantFolding, EvCheck HConstantFolding,
            EvDumpGraph (DumpPass HConstantFolding),
            EvRun SsaRedundantPhiElimination, EvCheck SsaRedundantPhiElimination,
            EvDumpGraph (DumpPass SsaRedundantPhiElimination),
            EvRun SsaDeadPhiElimination, EvCheck SsaDeadPhiElimination,
            EvDumpGraph (DumpPass SsaDeadPhiElimination),
            EvRun InstructionSimplifier, EvCheck InstructionSimplifier,
            EvDumpGraph (DumpPass InstructionSimplifier),
            EvRun GlobalValueNumberer, EvCheck GlobalValueNumberer,
            EvDumpGraph (DumpPass GlobalValueNumberer),
            EvRun InstructionSimplifier, EvCheck InstructionSimplifier,
            EvDumpGraph (DumpPass InstructionSimplifier)]"
  by (simp add: RunOptimizations_def optimizations_def)

lemma Compile_optimized_events:
  "fst (snd (Compile_optimized env this i g c log0)) =
     snd (RunOptimizations env
            (FindNaturalLoops env (TransformToSSA env (BuildDominatorTree env g)),
             log0 @ [EvBuildDominatorTree, EvTransformToSSA, EvDumpGraph DumpSsa,
                     EvFindNaturalLoops]))
     @ [EvPrepareForRegisterAllocation, EvLivenessAnalyze, EvDumpGraph DumpLiveness,
        EvAllocateRegisters, EvDumpGraph DumpRegisterAllocator, EvCompileOptimized,
        EvBuildMappingTable (GetIncludeDebugSymbols env), EvBuildStackMaps]"
  by (simp add: Compile_optimized_backend optimized_backend_events)

lemma Compile_baseline_events:
  "EvCompileBaseline \<in> set (fst (snd (Compile_baseline env this item u i g c [EvDumpGraph l])))
   \<and> EvCompileOptimized \<notin>
       set (fst (snd (Compile_baseline env this item u i g c [EvDumpGraph l])))"
  by (simp add: Compile_baseline_def coverage_phases_def Let_def split: prod.splits)

lemma Compile_outcomes:
  obtains
    (rejected) "Compile env this args = (entered this, [], Inr None)"
  | (check_failed) msg where "shouldCompile env args"
      "Compile env this args = (entered this, [], Inl (CheckFailed msg))"
  | (optimized) graph codegen where
      "IsInstructionSetSupported (kArm32QuickCodeUseSoftFloat env) (chosen_instruction_set env)"
      "\<not> IsPathologicalCase env (code_item args) (method_idx args) (dex_file args)"
      "BuildGraph env (dex_compilation_unit env args) (code_item args) = Some graph"
      "CodeGenerator_Create env graph (chosen_instruction_set env) = Some codegen"
      "optimized_condition env this args graph"
      "Compile env this args =
         (case Compile_optimized env (entered this) (chosen_instruction_set env) graph codegen
                  [EvDumpGraph DumpBuilder] of
              (this2, log, method) \<Rightarrow> (this2, log, Inr (Some method)))"
  | (valve) graph codegen where
      "IsInstructionSetSupported (kArm32QuickCodeUseSoftFloat env) (chosen_instruction_set env)"
      "\<not> IsPathologicalCase env (code_item args) (method_idx args) (dex_file args)"
      "BuildGraph env (dex_compilation_unit env args) (code_item args) = Some graph"
      "CodeGenerator_Create env graph (chosen_instruction_set env) = Some codegen"
      "\<not> optimized_condition env this args graph"
      "shouldOptimize env args" "Supports env (chosen_instruction_set env)"
      "Compile env this args =
         (entered this, [EvDumpGraph DumpBuilder],
            Inl (LogFatal ''Could not allocate registers in optimizing compiler''))"
  | (baseline) graph codegen where
      "IsInstructionSetSupported (kArm32QuickCodeUseSoftFloat env) (chosen_instruction_set env)"
      "\<not> IsPathologicalCase env (code_item args) (method_idx args) (dex_file args)"
      "BuildGraph env (dex_compilation_unit env args) (code_item args) = Some graph"
      "CodeGenerator_Create env graph (chosen_instruction_set env) = Some codegen"
      "\<not> optimized_condition env this args graph"
      "\<not> (shouldOptimize env args \<and> Supports env (chosen_instruction_set env))"
      "Compile env this args =
         (case Compile_baseline env (entered this) (code_item args)
                  (dex_compilation_unit env args) (chosen_instruction_set env) graph codegen
                  [EvDumpGraph DumpBuilder] of
              (this2, log, method) \<Rightarrow> (this2, log, Inr (Some method)))"
proof (cases "IsInstructionSetSupported (kArm32QuickCodeUseSoftFloat env)
                (chosen_instruction_set env)")
  case False
  then show ?thesis using rejected Compile_unsupported by blast
next
  case supported: True
  show ?thesis
  proof (cases "IsPathologicalCase env (code_item args) (method_idx args) (dex_file args)")
    case True
    then show ?thesis using rejected Compile_pathological by blast
  next
    case sane: False
    show ?thesis
    proof (cases "BuildGraph env (dex_compilation_unit env args) (code_item args)")
      case None
      from Compile_no_graph [OF supported sane None, of this]
      show ?thesis using rejected check_failed by (cases "shouldCompile env args") simp_all
    next
      case (Some graph)
      note built = this
      show ?thesis
      proof (cases "CodeGenerator_Create env graph (chosen_instruction_set env)")
        case None
        from Compile_no_codegen [OF supported sane built None, of this]
        show ?thesis using rejected check_failed by (cases "shouldCompile env args") simp_all
      next
        case (Some codegen)
        note eq = Compile_built [OF supported sane built Some, of this]
        show ?thesis
        proof (cases "optimized_condition env this args graph")
          case True
          with eq show ?thesis using optimized [OF supported sane built Some] by simp
        next
          case no_opt: False
          show ?thesis
          proof (cases "shouldOptimize env args \<and> Supports env (chosen_instruction_set env)")
            case True
            with eq no_opt show ?thesis using valve [OF supported sane built Some] by simp
          next
            case False
            with eq no_opt show ?thesis using baseline [OF supported sane built Some] by simp
          qed
        qed
      qed
    qed
  qed
qed

lemma Compile_optimized_has_event:
  "EvCompileOptimized \<in> set (fst (snd (Compile_optimized env this i g c log0)))"
  by (simp add: Compile_optimized_events)

lemma Compile_optimized_is_optimized:
  "is_optimized_method (snd (snd (Compile_optimized env this i g c log0)))"
  using Compile_optimized_tables [of env this i g c log0] by auto

lemma Compile_baseline_is_baseline:
  "is_baseline_method (snd (snd (Compile_baseline env this item u i g c log0)))"
  using Compile_baseline_tables [of env this item u i g c log0] by auto

lemma optimized_not_baseline: "is_optimized_method m \<Longrightarrow> \<not> is_baseline_method m"
  by (cases "tables m") simp_all

lemma returned_optimized_cases:
  assumes "returned_optimized (outcome (Compile env this args))"
  obtains graph codegen where
    "Compile env this args =
       (case Compile_optimized env (entered this) (chosen_instruction_set env) graph codegen
                [EvDumpGraph DumpBuilder] of
          (this2, log, method) \<Rightarrow> (this2, log, Inr (Some method)))"
proof (cases rule: Compile_outcomes [of env this args])
  case rejected
  with assms show ?thesis by (simp add: outcome_def)
next
  case (check_failed msg)
  with assms show ?thesis by (simp add: outcome_def)
next
  case (optimized graph codegen)
  then show ?thesis using that by blast
next
  case (valve graph codegen)
  with assms show ?thesis by (simp add: outcome_def)
next
  case (baseline graph codegen)
  have "is_baseline_method (snd (snd (Compile_baseline env (entered this) (code_item args)
                  (dex_compilation_unit env args) (chosen_instruction_set env) graph codegen
                  [EvDumpGraph DumpBuilder])))"
    by (rule Compile_baseline_is_baseline)
  with baseline(7) assms show ?thesis
    by (auto simp add: outcome_def split: prod.splits
        simp del: is_baseline_method.simps is_optimized_method.simps
        dest: optimized_not_baseline)
qed

lemma Compile_counters:
  "compiler_after (Compile env this args) =
     (if returned_optimized (outcome (Compile env this args))
      then (entered this)\<lparr>optimized_compiled_methods := optimized_compiled_methods this + 1\<rparr>
      else if returned_baseline (outcome (Compile env this args))
      then (entered this)\<lparr>unoptimized_compiled_methods :=
                             unoptimized_compiled_methods this + 1\<rparr>
      else entered this)"
proof (cases rule: Compile_outcomes [of env this args])
  case rejected
  then show ?thesis by (simp add: outcome_def compiler_after_def)
next
  case (check_failed msg)
  then show ?thesis by (simp add: outcome_def compiler_after_def)
next
  case (optimized graph codegen)
  obtain this2 log m where r: "Compile_optimized env (entered this) (chosen_instruction_set env)
      graph codegen [EvDumpGraph DumpBuilder] = (this2, log, m)"
    by (cases "Compile_optimized env (entered this) (chosen_instruction_set env)
      graph codegen [EvDumpGraph DumpBuilder]") auto
  have "is_optimized_method m"
    using Compile_optimized_is_optimized [of env "entered this" "chosen_instruction_set env"
      graph codegen "[EvDumpGraph DumpBuilder]"] r by simp
  moreover have "this2 = (entered this)\<lparr>optimized_compiled_methods :=
      optimized_compiled_methods this + 1\<rparr>"
    using Compile_optimized_compiler [of env "entered this" "chosen_instruction_set env"
      graph codegen "[EvDumpGraph DumpBuilder]"] r by (simp add: entered_def)
  ultimately show ?thesis using optimized(6) r
    by (simp add: outcome_def compiler_after_def del: is_optimized_method.simps)
next
  case (valve graph codegen)
  then show ?thesis by (simp add: outcome_def compiler_after_def)
next
  case (baseline graph codegen)
  obtain this2 log m where r: "Compile_baseline env (entered this) (code_item args)
      (dex_compilation_unit env args) (chosen_instruction_set env)
      graph codegen [EvDumpGraph DumpBuilder] = (this2, log, m)"
    by (cases "Compile_baseline env (entered this) (code_item args)
      (dex_compilation_unit env args) (chosen_instruction_set env)
      graph codegen [EvDumpGraph DumpBuilder]") auto
  have m: "is_baseline_method m"
    using Compile_baseline_is_baseline [of env "entered this" "code_item args"
      "dex_compilation_unit env args" "chosen_instruction_set env"
      graph codegen "[EvDumpGraph DumpBuilder]"] r by simp
  then have "\<not> is_optimized_method m"
    using optimized_not_baseline by blast
  moreover have "this2 = (entered this)\<lparr>unoptimized_compiled_methods :=
      unoptimized_compiled_methods this + 1\<rparr>"
    using Compile_baseline_compiler [of env "entered this" "code_item args"
      "dex_compilation_unit env args" "chosen_instruction_set env"
      graph codegen "[EvDumpGraph DumpBuilder]"] r by (simp add: entered_def)
  ultimately show ?thesis using baseline(7) r m
    by (simp add: outcome_def compiler_after_def
        del: is_optimized_method.simps is_baseline_method.simps)
qed

lemma outcome_counts:
  "successful_compilations rs = optimized_compilations rs + baseline_compilations rs"
proof (induction rs)
  case Nil
  show ?case
    by (simp add: successful_compilations_def optimized_compilations_def
        baseline_compilations_def)
next
  case (Cons r rs)
  have "(returned_method r \<longleftrightarrow> returned_optimized r \<or> returned_baseline r)
      \<and> \<not> (returned_optimized r \<and> returned_baseline r)"
  proof (cases r)
    case (Inl f)
    then show ?thesis by simp
  next
    case (Inr x)
    then show ?thesis
    proof (cases x)
      case None
      with Inr show ?thesis by simp
    next
      case (Some m)
      with Inr show ?thesis by (cases "tables m") simp_all
    qed
  qed
  with Cons show ?case
    by (auto simp add: successful_compilations_def optimized_compilations_def
        baseline_compilations_def)
qed

lemma calls_split:
  "length rs = successful_compilations rs + unsuccessful_calls rs"
  by (simp add: successful_compilations_def unsuccessful_calls_def sum_length_filter_compl)

lemma run_compiles_counters:
  "run_compiles env this argss = (this', rs) \<Longrightarrow>
     total_compiled_methods this' = total_compiled_methods this + of_nat (length rs)
   \<and> optimized_compiled_methods this' =
       optimized_compiled_methods this + of_nat (optimized_compilations rs)
   \<and> unoptimized_compiled_methods this' =
       unoptimized_compiled_methods this + of_nat (baseline_compilations rs)"
proof (induction argss arbitrary: this this' rs)
  case Nil
  then show ?case
    by (simp add: optimized_compilations_def baseline_compilations_def)
next
  case (Cons args rest)
  obtain t1 log r where c: "Compile env this args = (t1, log, r)"
    by (cases "Compile env this args") auto
  have t1: "t1 =
     (if returned_optimized r
      then (entered this)\<lparr>optimized_compiled_methods := optimized_compiled_methods this + 1\<rparr>
      else if returned_baseline r
      then (entered this)\<lparr>unoptimized_compiled_methods :=
                             unoptimized_compiled_methods this + 1\<rparr>
      else entered this)"
  proof -
    have "compiler_after (Compile env this args) = t1" "outcome (Compile env this args) = r"
      using c by (simp_all add: compiler_after_def outcome_def)
    then show ?thesis
      using Compile_counters [of env this args] by (simp only:)
  qed
  show ?case
  proof (cases r)
    case (Inl fatal)
    with Cons.prems c t1 show ?thesis
      by (auto simp add: entered_def optimized_compilations_def baseline_compilations_def)
  next
    case (Inr x)
    obtain t2 rs' where rr: "run_compiles env t1 rest = (t2, rs')"
      by (cases "run_compiles env t1 rest") auto
    with Cons.prems c Inr have eq: "this' = t2" "rs = Inr x # rs'" by simp_all
    have excl: "\<not> (returned_optimized r \<and> returned_baseline r)"
      using Inr by (cases x) (auto dest: optimized_not_baseline
          simp del: is_optimized_method.simps is_baseline_method.simps)
    from Cons.IH [OF rr] t1 eq Inr excl show ?thesis
      by (auto simp add: entered_def optimized_compilations_def baseline_compilations_def)
  qed
qed

text \<open>The five ways a call of Compile ends.\<close>

section \<open>Path decision\<close>

text \<open>
  Claim C1. For a method that passes the eligibility checks and whose graph and code
  generator are built, \<^verbatim>\<open>Compile\<close> takes the optimized path exactly when
  \<^verbatim>\<open>run_optimizations_\<close> is set, the method has no try block and
  \<^verbatim>\<open>CanAllocateRegistersFor\<close> holds of the graph as built and the chosen instruction set.
  In every other case, apart from the abort of line 310, it takes the baseline path.
\<close>

theorem path_decision:
  assumes "IsInstructionSetSupported (kArm32QuickCodeUseSoftFloat env)
             (chosen_instruction_set env)"
    and "\<not> IsPathologicalCase env (code_item args) (method_idx args) (dex_file args)"
    and "BuildGraph env (dex_compilation_unit env args) (code_item args) = Some graph"
    and "CodeGenerator_Create env graph (chosen_instruction_set env) = Some codegen"
  shows "(returned_optimized (outcome (Compile env this args)) \<longleftrightarrow>
            run_optimizations this \<and> tries_size (code_item args) = 0
            \<and> CanAllocateRegistersFor env graph (chosen_instruction_set env))
       \<and> (EvCompileOptimized \<in> set (events (Compile env this args)) \<longleftrightarrow>
            run_optimizations this \<and> tries_size (code_item args) = 0
            \<and> CanAllocateRegistersFor env graph (chosen_instruction_set env))
       \<and> (\<not> (run_optimizations this \<and> tries_size (code_item args) = 0
               \<and> CanAllocateRegistersFor env graph (chosen_instruction_set env))
            \<and> outcome (Compile env this args) \<noteq>
                Inl (LogFatal ''Could not allocate registers in optimizing compiler'')
          \<longrightarrow> returned_baseline (outcome (Compile env this args))
              \<and> EvCompileBaseline \<in> set (events (Compile env this args)))"
proof (cases "optimized_condition env this args graph")
  case True
  obtain this2 log m where r: "Compile_optimized env (entered this) (chosen_instruction_set env)
      graph codegen [EvDumpGraph DumpBuilder] = (this2, log, m)"
    by (cases "Compile_optimized env (entered this) (chosen_instruction_set env)
      graph codegen [EvDumpGraph DumpBuilder]") auto
  have m: "is_optimized_method m"
    using Compile_optimized_is_optimized [of env "entered this" "chosen_instruction_set env"
      graph codegen "[EvDumpGraph DumpBuilder]"] r by simp
  have l: "EvCompileOptimized \<in> set log"
    using Compile_optimized_has_event [of env "entered this" "chosen_instruction_set env"
      graph codegen "[EvDumpGraph DumpBuilder]"] r by simp
  have "Compile env this args = (this2, log, Inr (Some m))"
    using Compile_built [OF assms, of this] True r by simp
  with True m l show ?thesis
    by (simp add: outcome_def events_def optimized_condition_def)
next
  case False
  obtain this2 log m where r: "Compile_baseline env (entered this) (code_item args)
      (dex_compilation_unit env args) (chosen_instruction_set env)
      graph codegen [EvDumpGraph DumpBuilder] = (this2, log, m)"
    by (cases "Compile_baseline env (entered this) (code_item args)
      (dex_compilation_unit env args) (chosen_instruction_set env)
      graph codegen [EvDumpGraph DumpBuilder]") auto
  have m: "is_baseline_method m"
    using Compile_baseline_is_baseline [of env "entered this" "code_item args"
      "dex_compilation_unit env args" "chosen_instruction_set env"
      graph codegen "[EvDumpGraph DumpBuilder]"] r by simp
  then have m': "\<not> is_optimized_method m"
    using optimized_not_baseline by blast
  have l: "EvCompileBaseline \<in> set log \<and> EvCompileOptimized \<notin> set log"
    using Compile_baseline_events [of env "entered this" "code_item args"
      "dex_compilation_unit env args" "chosen_instruction_set env"
      graph codegen DumpBuilder] r by simp
  show ?thesis
  proof (cases "shouldOptimize env args \<and> Supports env (chosen_instruction_set env)")
    case True
    with False have "Compile env this args = (entered this, [EvDumpGraph DumpBuilder],
            Inl (LogFatal ''Could not allocate registers in optimizing compiler''))"
      using Compile_built [OF assms, of this] by simp
    with False show ?thesis
      by (simp add: outcome_def events_def optimized_condition_def)
  next
    case no_valve: False
    with False have "Compile env this args = (this2, log, Inr (Some m))"
      using Compile_built [OF assms, of this] r by simp
    with False m m' l show ?thesis
      by (simp add: outcome_def events_def optimized_condition_def del: is_optimized_method.simps is_baseline_method.simps)
  qed
qed

text \<open>The theorem at work on the sample collaborators.\<close>

theorem path_decision_witness:
  "IsInstructionSetSupported (kArm32QuickCodeUseSoftFloat (sample_env kX86 False ''m''))
     (chosen_instruction_set (sample_env kX86 False ''m''))
   \<and> \<not> IsPathologicalCase (sample_env kX86 False ''m'') (code_item (sample_args 0 2))
         (method_idx (sample_args 0 2)) (dex_file (sample_args 0 2))
   \<and> BuildGraph (sample_env kX86 False ''m'')
       (dex_compilation_unit (sample_env kX86 False ''m'') (sample_args 0 2))
       (code_item (sample_args 0 2)) = Some [0]
   \<and> CodeGenerator_Create (sample_env kX86 False ''m'') [0]
       (chosen_instruction_set (sample_env kX86 False ''m'')) = Some []
   \<and> returned_optimized (outcome (Compile (sample_env kX86 False ''m'')
         (OptimizingCompiler_new (sample_env kX86 False ''m'')) (sample_args 0 2)))
   \<and> EvCompileOptimized \<in> set (events (Compile (sample_env kX86 False ''m'')
         (OptimizingCompiler_new (sample_env kX86 False ''m'')) (sample_args 0 2)))
   \<and> outcome (Compile (sample_env kX86 False ''m'')
         (OptimizingCompiler_new (sample_env kX86 False ''m'')) (sample_args 1 2))
       \<noteq> Inl (LogFatal ''Could not allocate registers in optimizing compiler'')
   \<and> returned_baseline (outcome (Compile (sample_env kX86 False ''m'')
         (OptimizingCompiler_new (sample_env kX86 False ''m'')) (sample_args 1 2)))
   \<and> EvCompileBaseline \<in> set (events (Compile (sample_env kX86 False ''m'')
         (OptimizingCompiler_new (sample_env kX86 False ''m'')) (sample_args 1 2)))"
proof -
  have ne: "outcome (Compile (sample_env kX86 False ''m'')
         (OptimizingCompiler_new (sample_env kX86 False ''m'')) (sample_args 1 2))
       \<noteq> Inl (LogFatal ''Could not allocate registers in optimizing compiler'')"
    by (simp add: sample_defs Compile_defs)
  show ?thesis
    using ne
      path_decision [of "sample_env kX86 False ''m''" "sample_args 0 2" "[0]" "[]"
        "OptimizingCompiler_new (sample_env kX86 False ''m'')"]
      path_decision [of "sample_env kX86 False ''m''" "sample_args 1 2" "[0]" "[]"
        "OptimizingCompiler_new (sample_env kX86 False ''m'')"]
    by (simp add: sample_defs)
qed

section \<open>The counters\<close>

text \<open>
  Claim C2, as the code has it. For an unsupported instruction set \<^verbatim>\<open>Compile\<close> returns
  \<^verbatim>\<open>nullptr\<close>. Whenever it returns \<^verbatim>\<open>nullptr\<close> the total counter has gone up by one (it is
  incremented on entry, line 220) and the optimized and unoptimized counters are unchanged.
  Whenever it returns a method the total counter has gone up by one and exactly one of the
  other two has gone up by one: the optimized counter for a method of the optimized path,
  the unoptimized counter for a baseline method.
\<close>

theorem counters_per_call:
  "(\<not> IsInstructionSetSupported (kArm32QuickCodeUseSoftFloat env) (chosen_instruction_set env)
      \<longrightarrow> outcome (Compile env this args) = Inr None)
   \<and> (outcome (Compile env this args) = Inr None
      \<longrightarrow> total_compiled_methods (compiler_after (Compile env this args)) =
             total_compiled_methods this + 1
          \<and> optimized_compiled_methods (compiler_after (Compile env this args)) =
             optimized_compiled_methods this
          \<and> unoptimized_compiled_methods (compiler_after (Compile env this args)) =
             unoptimized_compiled_methods this)
   \<and> (outcome (Compile env this args) = Inr (Some m)
      \<longrightarrow> total_compiled_methods (compiler_after (Compile env this args)) =
             total_compiled_methods this + 1
          \<and> (if is_optimized_method m
             then optimized_compiled_methods (compiler_after (Compile env this args)) =
                    optimized_compiled_methods this + 1
                \<and> unoptimized_compiled_methods (compiler_after (Compile env this args)) =
                    unoptimized_compiled_methods this
             else optimized_compiled_methods (compiler_after (Compile env this args)) =
                    optimized_compiled_methods this
                \<and> unoptimized_compiled_methods (compiler_after (Compile env this args)) =
                    unoptimized_compiled_methods this + 1))"
proof -
  have a: "\<not> IsInstructionSetSupported (kArm32QuickCodeUseSoftFloat env)
             (chosen_instruction_set env)
      \<longrightarrow> outcome (Compile env this args) = Inr None"
    using Compile_unsupported [of env this args] by (simp add: outcome_def)
  have b: "outcome (Compile env this args) = Inr None
      \<longrightarrow> compiler_after (Compile env this args) = entered this"
    using Compile_counters [of env this args] by simp
  have "is_optimized_method m \<or> is_baseline_method m"
    by (cases "tables m") simp_all
  then have c: "outcome (Compile env this args) = Inr (Some m)
      \<longrightarrow> compiler_after (Compile env this args) =
            (if is_optimized_method m
             then (entered this)\<lparr>optimized_compiled_methods :=
                                   optimized_compiled_methods this + 1\<rparr>
             else (entered this)\<lparr>unoptimized_compiled_methods :=
                                   unoptimized_compiled_methods this + 1\<rparr>)"
    using Compile_counters [of env this args]
    by (auto simp del: is_optimized_method.simps is_baseline_method.simps)
  from a b c show ?thesis
    by (auto simp add: entered_def simp del: is_optimized_method.simps)
qed

text \<open>The theorem at work on the sample collaborators.\<close>

theorem counters_per_call_witness:
  "\<not> IsInstructionSetSupported
       (kArm32QuickCodeUseSoftFloat (sample_env (kOtherInstructionSet 0) False ''m''))
       (chosen_instruction_set (sample_env (kOtherInstructionSet 0) False ''m''))
   \<and> outcome (Compile (sample_env (kOtherInstructionSet 0) False ''m'')
        (OptimizingCompiler_new (sample_env (kOtherInstructionSet 0) False ''m''))
        (sample_args 0 2)) = Inr None
   \<and> total_compiled_methods (compiler_after
        (Compile (sample_env (kOtherInstructionSet 0) False ''m'')
          (OptimizingCompiler_new (sample_env (kOtherInstructionSet 0) False ''m''))
          (sample_args 0 2))) = 1
   \<and> optimized_compiled_methods (compiler_after
        (Compile (sample_env (kOtherInstructionSet 0) False ''m'')
          (OptimizingCompiler_new (sample_env (kOtherInstructionSet 0) False ''m''))
          (sample_args 0 2))) = 0
   \<and> unoptimized_compiled_methods (compiler_after
        (Compile (sample_env (kOtherInstructionSet 0) False ''m'')
          (OptimizingCompiler_new (sample_env (kOtherInstructionSet 0) False ''m''))
          (sample_args 0 2))) = 0
   \<and> outcome (Compile (sample_env kX86 False ''m'')
        (OptimizingCompiler_new (sample_env kX86 False ''m'')) (sample_args 0 2)) =
       Inr (Some sample_optimized_method)
   \<and> total_compiled_methods (compiler_after (Compile (sample_env kX86 False ''m'')
        (OptimizingCompiler_new (sample_env kX86 False ''m'')) (sample_args 0 2))) = 1
   \<and> optimized_compiled_methods (compiler_after (Compile (sample_env kX86 False ''m'')
        (OptimizingCompiler_new (sample_env kX86 False ''m'')) (sample_args 0 2))) = 1
   \<and> unoptimized_compiled_methods (compiler_after (Compile (sample_env kX86 False ''m'')
        (OptimizingCompiler_new (sample_env kX86 False ''m'')) (sample_args 0 2))) = 0"
proof -
  have r: "outcome (Compile (sample_env kX86 False ''m'')
        (OptimizingCompiler_new (sample_env kX86 False ''m'')) (sample_args 0 2)) =
       Inr (Some sample_optimized_method)"
    by (simp add: sample_defs Compile_defs)
  have o: "is_optimized_method sample_optimized_method"
    by (simp add: sample_defs)
  have u: "\<not> IsInstructionSetSupported
       (kArm32QuickCodeUseSoftFloat (sample_env (kOtherInstructionSet 0) False ''m''))
       (chosen_instruction_set (sample_env (kOtherInstructionSet 0) False ''m''))"
    by (simp add: sample_defs)
  have z: "total_compiled_methods (OptimizingCompiler_new e) = 0
      \<and> optimized_compiled_methods (OptimizingCompiler_new e) = 0
      \<and> unoptimized_compiled_methods (OptimizingCompiler_new e) = 0" for e :: "(nat list, nat list, nat) Collaborators"
    by (simp add: OptimizingCompiler_new_def)
  show ?thesis
    using r o u z
      counters_per_call [of "sample_env (kOtherInstructionSet 0) False ''m''"
        "OptimizingCompiler_new (sample_env (kOtherInstructionSet 0) False ''m'')"
        "sample_args 0 2" sample_optimized_method]
      counters_per_call [of "sample_env kX86 False ''m''"
        "OptimizingCompiler_new (sample_env kX86 False ''m'')"
        "sample_args 0 2" sample_optimized_method]
    by (simp del: is_optimized_method.simps)
qed

text \<open>
  As the specification words it, "no counter is incremented on a rejection", fails: on an
  unsupported instruction set the call returns \<^verbatim>\<open>nullptr\<close> and the total counter has moved.
\<close>

theorem counters_per_call_counterexample:
  "\<not> IsInstructionSetSupported
       (kArm32QuickCodeUseSoftFloat (sample_env (kOtherInstructionSet 0) False ''m''))
       (chosen_instruction_set (sample_env (kOtherInstructionSet 0) False ''m''))
   \<and> outcome (Compile (sample_env (kOtherInstructionSet 0) False ''m'')
        (OptimizingCompiler_new (sample_env (kOtherInstructionSet 0) False ''m''))
        (sample_args 0 2)) = Inr None
   \<and> total_compiled_methods (compiler_after
        (Compile (sample_env (kOtherInstructionSet 0) False ''m'')
          (OptimizingCompiler_new (sample_env (kOtherInstructionSet 0) False ''m''))
          (sample_args 0 2)))
       \<noteq> total_compiled_methods
           (OptimizingCompiler_new (sample_env (kOtherInstructionSet 0) False ''m''))"
  by (simp add: sample_defs Compile_defs)

text \<open>
  Claim C3, as the code has it. After any sequence of calls on a new compiler object, with
  \<open>N\<close> calls that returned a method, \<open>K\<close> of them optimized: the total counter is the
  number of calls made, which is \<open>N\<close> plus the calls that returned \<^verbatim>\<open>nullptr\<close> or that
  \<^verbatim>\<open>Compile\<close> itself aborted (lines 254, 260, 310);
  the optimized counter is \<open>K\<close>; the unoptimized counter is \<open>N - K\<close>; and the two add up
  to \<open>N\<close>. The counters are 32-bit, so the equalities are between 32-bit values.
\<close>

theorem statistics_of_a_run:
  assumes "run_compiles env (OptimizingCompiler_new env) argss = (this', rs)"
  shows "total_compiled_methods this' =
           of_nat (successful_compilations rs + unsuccessful_calls rs)
       \<and> optimized_compiled_methods this' = of_nat (optimized_compilations rs)
       \<and> unoptimized_compiled_methods this' =
           of_nat (successful_compilations rs - optimized_compilations rs)
       \<and> optimized_compiled_methods this' + unoptimized_compiled_methods this' =
           of_nat (successful_compilations rs)"
  using run_compiles_counters [OF assms] outcome_counts [of rs] calls_split [of rs]
  by (simp add: OptimizingCompiler_new_def)

text \<open>The theorem at work on the sample collaborators.\<close>

theorem statistics_of_a_run_witness:
  "successful_compilations (snd (run_compiles (sample_env kX86 False ''m'')
      (OptimizingCompiler_new (sample_env kX86 False ''m''))
      [sample_args 0 2, sample_args 1 2, sample_args 0 5, sample_args 0 0])) = 2
   \<and> optimized_compilations (snd (run_compiles (sample_env kX86 False ''m'')
      (OptimizingCompiler_new (sample_env kX86 False ''m''))
      [sample_args 0 2, sample_args 1 2, sample_args 0 5, sample_args 0 0])) = 1
   \<and> unsuccessful_calls (snd (run_compiles (sample_env kX86 False ''m'')
      (OptimizingCompiler_new (sample_env kX86 False ''m''))
      [sample_args 0 2, sample_args 1 2, sample_args 0 5, sample_args 0 0])) = 2
   \<and> total_compiled_methods (fst (run_compiles (sample_env kX86 False ''m'')
      (OptimizingCompiler_new (sample_env kX86 False ''m''))
      [sample_args 0 2, sample_args 1 2, sample_args 0 5, sample_args 0 0])) = 4
   \<and> optimized_compiled_methods (fst (run_compiles (sample_env kX86 False ''m'')
      (OptimizingCompiler_new (sample_env kX86 False ''m''))
      [sample_args 0 2, sample_args 1 2, sample_args 0 5, sample_args 0 0])) = 1
   \<and> unoptimized_compiled_methods (fst (run_compiles (sample_env kX86 False ''m'')
      (OptimizingCompiler_new (sample_env kX86 False ''m''))
      [sample_args 0 2, sample_args 1 2, sample_args 0 5, sample_args 0 0])) = 1"
proof -
  have c: "successful_compilations (snd (run_compiles (sample_env kX86 False ''m'')
      (OptimizingCompiler_new (sample_env kX86 False ''m''))
      [sample_args 0 2, sample_args 1 2, sample_args 0 5, sample_args 0 0])) = 2
   \<and> optimized_compilations (snd (run_compiles (sample_env kX86 False ''m'')
      (OptimizingCompiler_new (sample_env kX86 False ''m''))
      [sample_args 0 2, sample_args 1 2, sample_args 0 5, sample_args 0 0])) = 1
   \<and> unsuccessful_calls (snd (run_compiles (sample_env kX86 False ''m'')
      (OptimizingCompiler_new (sample_env kX86 False ''m''))
      [sample_args 0 2, sample_args 1 2, sample_args 0 5, sample_args 0 0])) = 2"
    by (simp add: sample_defs Compile_defs successful_compilations_def
        optimized_compilations_def unsuccessful_calls_def)
  have p: "run_compiles (sample_env kX86 False ''m'')
      (OptimizingCompiler_new (sample_env kX86 False ''m''))
      [sample_args 0 2, sample_args 1 2, sample_args 0 5, sample_args 0 0] =
     (fst (run_compiles (sample_env kX86 False ''m'')
        (OptimizingCompiler_new (sample_env kX86 False ''m''))
        [sample_args 0 2, sample_args 1 2, sample_args 0 5, sample_args 0 0]),
      snd (run_compiles (sample_env kX86 False ''m'')
        (OptimizingCompiler_new (sample_env kX86 False ''m''))
        [sample_args 0 2, sample_args 1 2, sample_args 0 5, sample_args 0 0]))"
    by (rule prod.collapse [symmetric])
  from statistics_of_a_run [OF p] c show ?thesis by simp
qed

text \<open>
  As the specification words it, "total equals the number of successful compilations", fails:
  after one optimized compilation and one rejection the total counter is 2, and the other
  two counters do not add up to it.
\<close>

theorem statistics_of_a_run_counterexample:
  "successful_compilations (snd (run_compiles (sample_env kX86 False ''m'')
      (OptimizingCompiler_new (sample_env kX86 False ''m''))
      [sample_args 0 2, sample_args 0 5])) = 1
   \<and> total_compiled_methods (fst (run_compiles (sample_env kX86 False ''m'')
      (OptimizingCompiler_new (sample_env kX86 False ''m''))
      [sample_args 0 2, sample_args 0 5])) = 2
   \<and> optimized_compiled_methods (fst (run_compiles (sample_env kX86 False ''m'')
      (OptimizingCompiler_new (sample_env kX86 False ''m''))
      [sample_args 0 2, sample_args 0 5]))
     + unoptimized_compiled_methods (fst (run_compiles (sample_env kX86 False ''m'')
      (OptimizingCompiler_new (sample_env kX86 False ''m''))
      [sample_args 0 2, sample_args 0 5]))
     \<noteq> total_compiled_methods (fst (run_compiles (sample_env kX86 False ''m'')
      (OptimizingCompiler_new (sample_env kX86 False ''m''))
      [sample_args 0 2, sample_args 0 5]))"
  by (simp add: sample_defs Compile_defs successful_compilations_def)

section \<open>Methods with try blocks\<close>

text \<open>
  Claim C4. When the method declares a try block (\<^verbatim>\<open>tries_size_ > 0\<close>) and
  \<^verbatim>\<open>Compile\<close> returns a method, that method was built by the baseline constructor: it
  carries a mapping table, a vmap table and a native GC map, whatever the value of
  \<^verbatim>\<open>run_optimizations_\<close>.
\<close>

theorem try_blocks_force_baseline:
  assumes "tries_size (code_item args) \<noteq> 0"
    and "outcome (Compile env this args) = Inr (Some m)"
  shows "\<exists>src_map mapping_table vmap_table gc_map.
           tables m = QuickTables src_map mapping_table vmap_table gc_map None"
proof (cases rule: Compile_outcomes [of env this args])
  case rejected
  with assms(2) show ?thesis by (simp add: outcome_def)
next
  case (check_failed msg)
  with assms(2) show ?thesis by (simp add: outcome_def)
next
  case (optimized graph codegen)
  with assms(1) show ?thesis by (simp add: optimized_condition_def)
next
  case (valve graph codegen)
  with assms(2) show ?thesis by (simp add: outcome_def)
next
  case (baseline graph codegen)
  from baseline(7) assms(2)
  have "m = snd (snd (Compile_baseline env (entered this) (code_item args)
                  (dex_compilation_unit env args) (chosen_instruction_set env) graph codegen
                  [EvDumpGraph DumpBuilder]))"
    by (simp add: outcome_def split: prod.splits)
  then show ?thesis by (simp add: Compile_baseline_tables)
qed

text \<open>The theorem at work on the sample collaborators.\<close>

theorem try_blocks_force_baseline_witness:
  "tries_size (code_item (sample_args 1 2)) \<noteq> 0
   \<and> outcome (Compile (sample_env kX86 True ''m'')
        (OptimizingCompiler_new (sample_env kX86 True ''m'')) (sample_args 1 2)) =
       Inr (Some sample_baseline_method)
   \<and> (\<exists>src_map mapping_table vmap_table gc_map.
         tables sample_baseline_method =
           QuickTables src_map mapping_table vmap_table gc_map None)"
proof -
  have t: "tries_size (code_item (sample_args 1 2)) \<noteq> 0"
    by (simp add: sample_defs)
  have r: "outcome (Compile (sample_env kX86 True ''m'')
        (OptimizingCompiler_new (sample_env kX86 True ''m'')) (sample_args 1 2)) =
       Inr (Some sample_baseline_method)"
    by (simp add: sample_defs Compile_defs)
  from try_blocks_force_baseline [OF t r] t r show ?thesis by simp
qed

section \<open>The register-allocation abort\<close>

text \<open>
  Claim C5, as the code has it. For a method whose graph and code generator are built,
  \<^verbatim>\<open>Compile\<close> aborts with "Could not allocate registers in optimizing compiler" exactly
  when the symbol contains the marker \<^verbatim>\<open>00024reg_00024\<close>, \<^verbatim>\<open>RegisterAllocator::Supports\<close>
  holds of the chosen instruction set, and the optimized path was not selected, be it
  because \<^verbatim>\<open>run_optimizations_\<close> is unset, because the method has a try block, or because
  \<^verbatim>\<open>CanAllocateRegistersFor\<close> is false.
\<close>

theorem register_valve_condition:
  assumes "IsInstructionSetSupported (kArm32QuickCodeUseSoftFloat env)
             (chosen_instruction_set env)"
    and "\<not> IsPathologicalCase env (code_item args) (method_idx args) (dex_file args)"
    and "BuildGraph env (dex_compilation_unit env args) (code_item args) = Some graph"
    and "CodeGenerator_Create env graph (chosen_instruction_set env) = Some codegen"
  shows "outcome (Compile env this args) =
           Inl (LogFatal ''Could not allocate registers in optimizing compiler'')
         \<longleftrightarrow>
           shouldOptimize env args \<and> Supports env (chosen_instruction_set env)
           \<and> \<not> (run_optimizations this \<and> tries_size (code_item args) = 0
                \<and> CanAllocateRegistersFor env graph (chosen_instruction_set env))"
  using Compile_built [OF assms, of this]
  by (simp add: outcome_def optimized_condition_def split: prod.splits)

text \<open>The theorem at work on the sample collaborators.\<close>

theorem register_valve_condition_witness:
  "IsInstructionSetSupported
     (kArm32QuickCodeUseSoftFloat (sample_env kX86 False ''f00024reg_00024g''))
     (chosen_instruction_set (sample_env kX86 False ''f00024reg_00024g''))
   \<and> \<not> IsPathologicalCase (sample_env kX86 False ''f00024reg_00024g'')
         (code_item (sample_args 1 2)) (method_idx (sample_args 1 2))
         (dex_file (sample_args 1 2))
   \<and> BuildGraph (sample_env kX86 False ''f00024reg_00024g'')
       (dex_compilation_unit (sample_env kX86 False ''f00024reg_00024g'') (sample_args 1 2))
       (code_item (sample_args 1 2)) = Some [0]
   \<and> CodeGenerator_Create (sample_env kX86 False ''f00024reg_00024g'') [0]
       (chosen_instruction_set (sample_env kX86 False ''f00024reg_00024g'')) = Some []
   \<and> outcome (Compile (sample_env kX86 False ''f00024reg_00024g'')
         (OptimizingCompiler_new (sample_env kX86 False ''f00024reg_00024g''))
         (sample_args 1 2)) =
       Inl (LogFatal ''Could not allocate registers in optimizing compiler'')"
  using register_valve_condition [of "sample_env kX86 False ''f00024reg_00024g''"
        "sample_args 1 2" "[0]" "[]"
        "OptimizingCompiler_new (sample_env kX86 False ''f00024reg_00024g'')"]
  by (simp add: sample_defs)

text \<open>
  As the specification words it, "the abort fires exactly when the method is marked and the
  allocability predicate is false", fails: a marked method with a try block aborts although
  the predicate holds of its graph.
\<close>

theorem register_valve_condition_counterexample:
  "\<not> (outcome (Compile (sample_env kX86 False ''f00024reg_00024g'')
         (OptimizingCompiler_new (sample_env kX86 False ''f00024reg_00024g''))
         (sample_args 1 2)) =
       Inl (LogFatal ''Could not allocate registers in optimizing compiler'')
      \<longleftrightarrow>
       shouldOptimize (sample_env kX86 False ''f00024reg_00024g'') (sample_args 1 2)
       \<and> \<not> CanAllocateRegistersFor (sample_env kX86 False ''f00024reg_00024g'') [0]
             (chosen_instruction_set (sample_env kX86 False ''f00024reg_00024g'')))"
  by (simp add: sample_defs Compile_defs)

section \<open>Ineligible methods\<close>

text \<open>
  Claim C6, as the code has it. An unsupported instruction set and a pathological method
  make \<^verbatim>\<open>Compile\<close> return \<^verbatim>\<open>nullptr\<close>. A graph that cannot be built and a missing code
  generator make it return \<^verbatim>\<open>nullptr\<close> unless the symbol contains the marker
  \<^verbatim>\<open>00024opt_00024\<close>; for a method so marked the \<^verbatim>\<open>CHECK\<close> of line 254 or 260 aborts.
\<close>

theorem ineligible_outcomes:
  "(\<not> IsInstructionSetSupported (kArm32QuickCodeUseSoftFloat env) (chosen_instruction_set env)
      \<longrightarrow> outcome (Compile env this args) = Inr None)
   \<and> (IsPathologicalCase env (code_item args) (method_idx args) (dex_file args)
      \<longrightarrow> outcome (Compile env this args) = Inr None)
   \<and> (IsInstructionSetSupported (kArm32QuickCodeUseSoftFloat env) (chosen_instruction_set env)
      \<and> \<not> IsPathologicalCase env (code_item args) (method_idx args) (dex_file args)
      \<and> BuildGraph env (dex_compilation_unit env args) (code_item args) = None
      \<longrightarrow> outcome (Compile env this args) =
            (if shouldCompile env args
             then Inl (CheckFailed ''Could not build graph in optimizing compiler'')
             else Inr None))
   \<and> (IsInstructionSetSupported (kArm32QuickCodeUseSoftFloat env) (chosen_instruction_set env)
      \<and> \<not> IsPathologicalCase env (code_item args) (method_idx args) (dex_file args)
      \<and> BuildGraph env (dex_compilation_unit env args) (code_item args) = Some graph
      \<and> CodeGenerator_Create env graph (chosen_instruction_set env) = None
      \<longrightarrow> outcome (Compile env this args) =
            (if shouldCompile env args
             then Inl (CheckFailed ''Could not find code generator for optimizing compiler'')
             else Inr None))"
  using Compile_unsupported [of env this args] Compile_pathological [of env args this]
    Compile_no_graph [of env args this] Compile_no_codegen [of env args graph this]
  by (simp add: outcome_def)

text \<open>The theorem at work on the sample collaborators.\<close>

theorem ineligible_outcomes_witness:
  "\<not> IsInstructionSetSupported
       (kArm32QuickCodeUseSoftFloat (sample_env (kOtherInstructionSet 0) False ''m''))
       (chosen_instruction_set (sample_env (kOtherInstructionSet 0) False ''m''))
   \<and> outcome (Compile (sample_env (kOtherInstructionSet 0) False ''m'')
        (OptimizingCompiler_new (sample_env (kOtherInstructionSet 0) False ''m''))
        (sample_args 0 2)) = Inr None
   \<and> IsPathologicalCase (sample_env kX86 False ''m'') (code_item (sample_args 0 5))
        (method_idx (sample_args 0 5)) (dex_file (sample_args 0 5))
   \<and> outcome (Compile (sample_env kX86 False ''m'')
        (OptimizingCompiler_new (sample_env kX86 False ''m'')) (sample_args 0 5)) = Inr None
   \<and> BuildGraph (sample_env kX86 False ''m'')
        (dex_compilation_unit (sample_env kX86 False ''m'') (sample_args 0 0))
        (code_item (sample_args 0 0)) = None
   \<and> outcome (Compile (sample_env kX86 False ''m'')
        (OptimizingCompiler_new (sample_env kX86 False ''m'')) (sample_args 0 0)) = Inr None
   \<and> CodeGenerator_Create (sample_env kArm64 False ''m'') [0]
        (chosen_instruction_set (sample_env kArm64 False ''m'')) = None
   \<and> outcome (Compile (sample_env kArm64 False ''m'')
        (OptimizingCompiler_new (sample_env kArm64 False ''m'')) (sample_args 0 2)) = Inr None"
  using
    ineligible_outcomes [of "sample_env (kOtherInstructionSet 0) False ''m''"
      "OptimizingCompiler_new (sample_env (kOtherInstructionSet 0) False ''m'')"
      "sample_args 0 2" "[0]"]
    ineligible_outcomes [of "sample_env kX86 False ''m''"
      "OptimizingCompiler_new (sample_env kX86 False ''m'')" "sample_args 0 5" "[0]"]
    ineligible_outcomes [of "sample_env kX86 False ''m''"
      "OptimizingCompiler_new (sample_env kX86 False ''m'')" "sample_args 0 0" "[0]"]
    ineligible_outcomes [of "sample_env kArm64 False ''m''"
      "OptimizingCompiler_new (sample_env kArm64 False ''m'')" "sample_args 0 2" "[0]"]
  by (simp add: sample_defs)

text \<open>
  As the specification words it, "a graph-build failure is never fatal", fails: for a method
  marked \<^verbatim>\<open>00024opt_00024\<close> whose graph cannot be built the call aborts.
\<close>

theorem ineligible_outcomes_counterexample:
  "IsInstructionSetSupported
       (kArm32QuickCodeUseSoftFloat (sample_env kX86 False ''f00024opt_00024g''))
       (chosen_instruction_set (sample_env kX86 False ''f00024opt_00024g''))
   \<and> \<not> IsPathologicalCase (sample_env kX86 False ''f00024opt_00024g'')
         (code_item (sample_args 0 0)) (method_idx (sample_args 0 0))
         (dex_file (sample_args 0 0))
   \<and> BuildGraph (sample_env kX86 False ''f00024opt_00024g'')
        (dex_compilation_unit (sample_env kX86 False ''f00024opt_00024g'') (sample_args 0 0))
        (code_item (sample_args 0 0)) = None
   \<and> outcome (Compile (sample_env kX86 False ''f00024opt_00024g'')
        (OptimizingCompiler_new (sample_env kX86 False ''f00024opt_00024g''))
        (sample_args 0 0)) \<noteq> Inr None
   \<and> outcome (Compile (sample_env kX86 False ''f00024opt_00024g'')
        (OptimizingCompiler_new (sample_env kX86 False ''f00024opt_00024g''))
        (sample_args 0 0)) =
       Inl (CheckFailed ''Could not build graph in optimizing compiler'')"
  by (simp add: sample_defs Compile_defs)

section \<open>The optimization sequence\<close>

text \<open>
  Claim C8. On the optimized path the optimization sequence runs once, in this order:
  dead-code elimination, constant folding, redundant-phi elimination, dead-phi elimination,
  instruction simplification, global value numbering, instruction simplification; each
  pass is run and then checked before the next starts. The \<^verbatim>\<open>Run\<close> and \<^verbatim>\<open>Check\<close> calls of
  the compilation are these fourteen and no other, and the graph from which the rest of
  the pipeline (lines 281-308) produces the returned method is the graph in SSA form with
  loops found, taken through \<^verbatim>\<open>Run\<close> and \<^verbatim>\<open>Check\<close> of the seven passes in that order.
\<close>

theorem optimization_sequence:
  assumes "IsInstructionSetSupported (kArm32QuickCodeUseSoftFloat env)
             (chosen_instruction_set env)"
    and "\<not> IsPathologicalCase env (code_item args) (method_idx args) (dex_file args)"
    and "BuildGraph env (dex_compilation_unit env args) (code_item args) = Some graph"
    and "CodeGenerator_Create env graph (chosen_instruction_set env) = Some codegen"
    and "run_optimizations this"
    and "tries_size (code_item args) = 0"
    and "CanAllocateRegistersFor env graph (chosen_instruction_set env)"
  shows "filter is_pass_event (events (Compile env this args)) =
     [EvRun HDeadCodeElimination, EvCheck HDeadCodeElimination,
      EvRun HConstantFolding, EvCheck HConstantFolding,
      EvRun SsaRedundantPhiElimination, EvCheck SsaRedundantPhiElimination,
      EvRun SsaDeadPhiElimination, EvCheck SsaDeadPhiElimination,
      EvRun InstructionSimplifier, EvCheck InstructionSimplifier,
      EvRun GlobalValueNumberer, EvCheck GlobalValueNumberer,
      EvRun InstructionSimplifier, EvCheck InstructionSimplifier]
   \<and> (events (Compile env this args), outcome (Compile env this args)) =
     (case optimized_backend env (chosen_instruction_set env)
        (Check env InstructionSimplifier (Run env InstructionSimplifier
          (Check env GlobalValueNumberer (Run env GlobalValueNumberer
            (Check env InstructionSimplifier (Run env InstructionSimplifier
              (Check env SsaDeadPhiElimination (Run env SsaDeadPhiElimination
                (Check env SsaRedundantPhiElimination (Run env SsaRedundantPhiElimination
                  (Check env HConstantFolding (Run env HConstantFolding
                    (Check env HDeadCodeElimination (Run env HDeadCodeElimination
                      (FindNaturalLoops env (TransformToSSA env
                        (BuildDominatorTree env graph)))))))))))))))))
        codegen
        [EvDumpGraph DumpBuilder, EvBuildDominatorTree, EvTransformToSSA,
         EvDumpGraph DumpSsa, EvFindNaturalLoops,
         EvRun HDeadCodeElimination, EvCheck HDeadCodeElimination,
         EvDumpGraph (DumpPass HDeadCodeElimination),
         EvRun HConstantFolding, EvCheck HConstantFolding,
         EvDumpGraph (DumpPass HConstantFolding),
         EvRun SsaRedundantPhiElimination, EvCheck SsaRedundantPhiElimination,
         EvDumpGraph (DumpPass SsaRedundantPhiElimination),
         EvRun SsaDeadPhiElimination, EvCheck SsaDeadPhiElimination,
         EvDumpGraph (DumpPass SsaDeadPhiElimination),
         EvRun InstructionSimplifier, EvCheck InstructionSimplifier,
         EvDumpGraph (DumpPass InstructionSimplifier),
         EvRun GlobalValueNumberer, EvCheck GlobalValueNumberer,
         EvDumpGraph (DumpPass GlobalValueNumberer),
         EvRun InstructionSimplifier, EvCheck InstructionSimplifier,
         EvDumpGraph (DumpPass InstructionSimplifier)]
      of (log, method) \<Rightarrow> (log, Inr (Some method)))"
proof -
  have c: "optimized_condition env this args graph"
    using assms(5-7) by (simp add: optimized_condition_def)
  have "Compile env this args =
       (case Compile_optimized env (entered this) (chosen_instruction_set env) graph codegen
                [EvDumpGraph DumpBuilder] of
          (this2, log, method) \<Rightarrow> (this2, log, Inr (Some method)))"
    using Compile_built [OF assms(1-4), of this] c by simp
  then have r: "(events (Compile env this args), outcome (Compile env this args)) =
       (case snd (Compile_optimized env (entered this) (chosen_instruction_set env) graph
                codegen [EvDumpGraph DumpBuilder]) of
          (log, method) \<Rightarrow> (log, Inr (Some method)))"
    by (simp add: events_def outcome_def split: prod.splits)
  have e: "events (Compile env this args) =
      fst (snd (Compile_optimized env (entered this) (chosen_instruction_set env) graph
                codegen [EvDumpGraph DumpBuilder]))"
    using r by (simp split: prod.splits)
  have "filter is_pass_event (events (Compile env this args)) =
     [EvRun HDeadCodeElimination, EvCheck HDeadCodeElimination,
      EvRun HConstantFolding, EvCheck HConstantFolding,
      EvRun SsaRedundantPhiElimination, EvCheck SsaRedundantPhiElimination,
      EvRun SsaDeadPhiElimination, EvCheck SsaDeadPhiElimination,
      EvRun InstructionSimplifier, EvCheck InstructionSimplifier,
      EvRun GlobalValueNumberer, EvCheck GlobalValueNumberer,
      EvRun InstructionSimplifier, EvCheck InstructionSimplifier]"
    by (simp add: e Compile_optimized_events RunOptimizations_events)
  moreover note r [unfolded Compile_optimized_backend RunOptimizations_graph
      RunOptimizations_events]
  ultimately show ?thesis by simp
qed

text \<open>
  The theorem at work on the sample collaborators, whose code spells out the graph: the
  seven passes, each run (\<open>10 + k\<close>) and then checked (\<open>20 + k\<close>), between the loop finder
  (\<open>3\<close>) and the preparation for register allocation (\<open>5\<close>).
\<close>

theorem optimization_sequence_witness:
  "IsInstructionSetSupported (kArm32QuickCodeUseSoftFloat (sample_env kX86 False ''m''))
     (chosen_instruction_set (sample_env kX86 False ''m''))
   \<and> \<not> IsPathologicalCase (sample_env kX86 False ''m'') (code_item (sample_args 0 2))
         (method_idx (sample_args 0 2)) (dex_file (sample_args 0 2))
   \<and> BuildGraph (sample_env kX86 False ''m'')
       (dex_compilation_unit (sample_env kX86 False ''m'') (sample_args 0 2))
       (code_item (sample_args 0 2)) = Some [0]
   \<and> CodeGenerator_Create (sample_env kX86 False ''m'') [0]
       (chosen_instruction_set (sample_env kX86 False ''m'')) = Some []
   \<and> run_optimizations (OptimizingCompiler_new (sample_env kX86 False ''m''))
   \<and> tries_size (code_item (sample_args 0 2)) = 0
   \<and> CanAllocateRegistersFor (sample_env kX86 False ''m'') [0]
       (chosen_instruction_set (sample_env kX86 False ''m''))
   \<and> filter is_pass_event (events (Compile (sample_env kX86 False ''m'')
         (OptimizingCompiler_new (sample_env kX86 False ''m'')) (sample_args 0 2))) =
     [EvRun HDeadCodeElimination, EvCheck HDeadCodeElimination,
      EvRun HConstantFolding, EvCheck HConstantFolding,
      EvRun SsaRedundantPhiElimination, EvCheck SsaRedundantPhiElimination,
      EvRun SsaDeadPhiElimination, EvCheck SsaDeadPhiElimination,
      EvRun InstructionSimplifier, EvCheck InstructionSimplifier,
      EvRun GlobalValueNumberer, EvCheck GlobalValueNumberer,
      EvRun InstructionSimplifier, EvCheck InstructionSimplifier]
   \<and> outcome (Compile (sample_env kX86 False ''m'')
         (OptimizingCompiler_new (sample_env kX86 False ''m'')) (sample_args 0 2)) =
       Inr (Some sample_optimized_method)
   \<and> quick_code sample_optimized_method =
       [0, 1, 2, 3, 10, 20, 11, 21, 12, 22, 13, 23, 14, 24, 15, 25, 14, 24, 5, 9, 6]"
  using optimization_sequence [of "sample_env kX86 False ''m''" "sample_args 0 2" "[0]" "[]"
        "OptimizingCompiler_new (sample_env kX86 False ''m'')"]
  by (simp add: sample_defs optimized_backend_def emit_code_def Allocate_def GetMemory_def
        CodeVectorAllocator_new_def Let_def)

section \<open>The tables of the optimized path\<close>

text \<open>
  Claim C9, as the code has it. On the optimized path \<^verbatim>\<open>BuildMappingTable\<close> is called
  once on every compilation and the mapping table it fills is stored in the returned
  method; the debug-symbol option only decides whether a source map is passed to that
  call. \<^verbatim>\<open>BuildStackMaps\<close> is called once on every optimized compilation, and no other
  table is built.
\<close>

theorem optimized_tables:
  assumes "outcome (Compile env this args) = Inr (Some m)"
    and "is_optimized_method m"
  shows "filter is_table_event (events (Compile env this args)) =
           [EvBuildMappingTable (GetIncludeDebugSymbols env), EvBuildStackMaps]
       \<and> (\<exists>c. tables m =
                StackMapTables (fst (BuildMappingTable env c (GetIncludeDebugSymbols env)))
                  (BuildStackMaps env c))"
proof -
  from assms have "returned_optimized (outcome (Compile env this args))" by simp
  then obtain graph codegen where c:
    "Compile env this args =
       (case Compile_optimized env (entered this) (chosen_instruction_set env) graph codegen
                [EvDumpGraph DumpBuilder] of
          (this2, log, method) \<Rightarrow> (this2, log, Inr (Some method)))"
    by (rule returned_optimized_cases)
  then have "events (Compile env this args) =
    fst (snd (Compile_optimized env (entered this) (chosen_instruction_set env) graph codegen
                [EvDumpGraph DumpBuilder]))"
    by (simp add: events_def split: prod.splits)
  then have e: "filter is_table_event (events (Compile env this args)) =
           [EvBuildMappingTable (GetIncludeDebugSymbols env), EvBuildStackMaps]"
    by (simp add: Compile_optimized_events RunOptimizations_events)
  from c assms(1) have "m = snd (snd (Compile_optimized env (entered this)
      (chosen_instruction_set env) graph codegen [EvDumpGraph DumpBuilder]))"
    by (simp add: outcome_def split: prod.splits)
  then have "\<exists>c. tables m =
                StackMapTables (fst (BuildMappingTable env c (GetIncludeDebugSymbols env)))
                  (BuildStackMaps env c)"
    by (simp add: Compile_optimized_tables del: split_paired_Ex)
  with e show ?thesis by simp
qed

text \<open>The theorem at work on the sample collaborators.\<close>

theorem optimized_tables_witness:
  "outcome (Compile (sample_env kX86 True ''m'')
        (OptimizingCompiler_new (sample_env kX86 True ''m'')) (sample_args 0 2)) =
       Inr (Some sample_optimized_method)
   \<and> is_optimized_method sample_optimized_method
   \<and> filter is_table_event (events (Compile (sample_env kX86 True ''m'')
        (OptimizingCompiler_new (sample_env kX86 True ''m'')) (sample_args 0 2))) =
       [EvBuildMappingTable True, EvBuildStackMaps]"
proof -
  have r: "outcome (Compile (sample_env kX86 True ''m'')
        (OptimizingCompiler_new (sample_env kX86 True ''m'')) (sample_args 0 2)) =
       Inr (Some sample_optimized_method)"
    by (simp add: sample_defs Compile_defs)
  have o: "is_optimized_method sample_optimized_method"
    by (simp add: sample_defs)
  from optimized_tables [OF r o] r o show ?thesis by (simp add: sample_env_def)
qed

text \<open>
  As the specification words it, "the mapping table is built if and only if debug symbols are
  requested", fails: without debug symbols \<^verbatim>\<open>BuildMappingTable\<close> is still called and its
  table is in the returned method.
\<close>

theorem optimized_tables_counterexample:
  "\<not> GetIncludeDebugSymbols (sample_env kX86 False ''m'')
   \<and> returned_optimized (outcome (Compile (sample_env kX86 False ''m'')
        (OptimizingCompiler_new (sample_env kX86 False ''m'')) (sample_args 0 2)))
   \<and> EvBuildMappingTable False \<in> set (events (Compile (sample_env kX86 False ''m'')
        (OptimizingCompiler_new (sample_env kX86 False ''m'')) (sample_args 0 2)))
   \<and> outcome (Compile (sample_env kX86 False ''m'')
        (OptimizingCompiler_new (sample_env kX86 False ''m'')) (sample_args 0 2)) =
       Inr (Some sample_optimized_method)
   \<and> tables sample_optimized_method = StackMapTables [1, 2] [3]"
  by (simp add: sample_defs Compile_defs)

section \<open>The floating-point spill mask\<close>

text \<open>
  Claim C10. Every method that \<^verbatim>\<open>Compile\<close> returns, on either path, has a
  floating-point spill mask of 0.
\<close>

theorem fp_spill_mask_zero:
  assumes "outcome (Compile env this args) = Inr (Some m)"
  shows "fp_spill_mask m = 0"
proof (cases rule: Compile_outcomes [of env this args])
  case rejected
  with assms show ?thesis by (simp add: outcome_def)
next
  case (check_failed msg)
  with assms show ?thesis by (simp add: outcome_def)
next
  case (optimized graph codegen)
  from optimized(6) assms
  have "m = snd (snd (Compile_optimized env (entered this) (chosen_instruction_set env)
                  graph codegen [EvDumpGraph DumpBuilder]))"
    by (simp add: outcome_def split: prod.splits)
  then show ?thesis by (simp add: Compile_optimized_fp)
next
  case (valve graph codegen)
  with assms show ?thesis by (simp add: outcome_def)
next
  case (baseline graph codegen)
  from baseline(7) assms
  have "m = snd (snd (Compile_baseline env (entered this) (code_item args)
                  (dex_compilation_unit env args) (chosen_instruction_set env) graph codegen
                  [EvDumpGraph DumpBuilder]))"
    by (simp add: outcome_def split: prod.splits)
  then show ?thesis by (simp add: Compile_baseline_fp)
qed

text \<open>The theorem at work on the sample collaborators.\<close>

theorem fp_spill_mask_zero_witness:
  "outcome (Compile (sample_env kX86 False ''m'')
        (OptimizingCompiler_new (sample_env kX86 False ''m'')) (sample_args 0 2)) =
       Inr (Some sample_optimized_method)
   \<and> fp_spill_mask sample_optimized_method = 0"
proof -
  have r: "outcome (Compile (sample_env kX86 False ''m'')
        (OptimizingCompiler_new (sample_env kX86 False ''m'')) (sample_args 0 2)) =
       Inr (Some sample_optimized_method)"
    by (simp add: sample_defs Compile_defs)
  from fp_spill_mask_zero [OF r] r show ?thesis by simp
qed

end
